theory Spec2Isabelle
  imports Complex_Main
begin

section \<open>Python values\<close>

text \<open>
  A Python \<^verbatim>\<open>str\<close> is a sequence of Unicode code points, so it is modelled as a list of
  natural numbers (HOL's \<open>char\<close> is a byte and cannot hold a Tamil letter). \<open>lit\<close> turns
  an ASCII literal of the source into such a sequence; Tamil literals are written out
  code point by code point, in hexadecimal.
\<close>

type_synonym pystr = "nat list"

definition lit :: "string \<Rightarrow> pystr" where
  "lit s = map of_char s"

text \<open>
  An exception is a value. Only instances of \<^verbatim>\<open>Exception\<close> are modelled (what
  \<^verbatim>\<open>except Exception\<close> catches); the one thing the program reads from a caught
  exception is \<^verbatim>\<open>str(e)\<close>, which the constructor carries.
\<close>

datatype exn = Exception pystr

fun exn_str :: "exn \<Rightarrow> pystr" where
  "exn_str (Exception m) = m"

text \<open>
  The checkers report findings as tuples \<^verbatim>\<open>(error_type, msg, context)\<close>.
\<close>

type_synonym error_rec = "pystr \<times> pystr \<times> pystr"

definition rec_type :: "error_rec \<Rightarrow> pystr" where
  "rec_type r = fst r"

definition rec_context :: "error_rec \<Rightarrow> pystr" where
  "rec_context r = snd (snd r)"

subsection \<open>Dictionaries\<close>

text \<open>
  A Python \<^verbatim>\<open>dict\<close> keeps its keys in insertion order and \<^verbatim>\<open>d[k] = v\<close> on a key
  already present replaces the value where it stands. The order is what two of the
  properties below are about, so a dict is an association list and \<open>setitem\<close> is
  \<^verbatim>\<open>d[k] = v\<close>.
\<close>

type_synonym ('k, 'v) dict = "('k \<times> 'v) list"

fun setitem :: "('k, 'v) dict \<Rightarrow> 'k \<Rightarrow> 'v \<Rightarrow> ('k, 'v) dict" where
  "setitem [] k v = [(k, v)]"
| "setitem ((k', v') # d) k v =
     (if k' = k then (k', v) # d else (k', v') # setitem d k v)"

definition keys :: "('k, 'v) dict \<Rightarrow> 'k list" where
  "keys d = map fst d"

definition getitem :: "('k, 'v) dict \<Rightarrow> 'k \<Rightarrow> 'v option" where
  "getitem d k = map_of d k"

section \<open>The analyzer of main.py\<close>

subsection \<open>Checker objects\<close>

text \<open>
  \<^verbatim>\<open>analyze_text\<close> uses a model object in three ways: it calls \<^verbatim>\<open>check_text\<close>, it
  asks \<^verbatim>\<open>hasattr(model, 'correct_spelling')\<close>, and when that holds it calls
  \<^verbatim>\<open>correct_spelling\<close>. A checker object is therefore its \<^verbatim>\<open>check_text\<close> (which
  may raise), the names of its attributes, and what calling its \<^verbatim>\<open>correct_spelling\<close>
  does.
\<close>

record checker =
  check_text :: "pystr \<Rightarrow> exn + error_rec list"
  attr_names :: "string list"
  correct_spelling :: "pystr \<Rightarrow> exn + pystr"

definition hasattr :: "checker \<Rightarrow> string \<Rightarrow> bool" where
  "hasattr obj name = (name \<in> set (attr_names obj))"

record analyzer =
  models :: "(pystr, checker) dict"

subsection \<open>analyze\_text\<close>

text \<open>
  The condition of the filtering loop:
  \<^verbatim>\<open>(error_type == 'spelling' and check_spelling) or
   (error_type in ['grammar', 'statistical'] and check_grammar)\<close>.
\<close>

definition keep :: "bool \<Rightarrow> bool \<Rightarrow> error_rec \<Rightarrow> bool" where
  "keep check_spelling check_grammar r =
     (case r of (error_type, msg, context) \<Rightarrow>
        (error_type = lit ''spelling'' \<and> check_spelling) \<or>
        (error_type \<in> set [lit ''grammar'', lit ''statistical''] \<and> check_grammar))"

type_synonym analysis = "(pystr, error_rec list) dict \<times> (pystr, pystr) dict"

text \<open>
  The body of the \<^verbatim>\<open>try\<close>, for one model. It stores the filtered records before
  it probes for \<^verbatim>\<open>correct_spelling\<close>, so an exception leaves the state it had
  reached: \<open>Inl\<close> carries the exception together with that state.
\<close>

definition try_block ::
  "pystr \<Rightarrow> bool \<Rightarrow> bool \<Rightarrow> pystr \<Rightarrow> checker \<Rightarrow> analysis \<Rightarrow> (exn \<times> analysis) + analysis" where
  "try_block text check_spelling check_grammar model_name model st =
     (case st of (results, corrections) \<Rightarrow>
        (case check_text model text of
           Inl e \<Rightarrow> Inl (e, (results, corrections))
         | Inr errors \<Rightarrow>
             (let filtered_errors = filter (keep check_spelling check_grammar) errors;
                  results1 = setitem results model_name filtered_errors
              in if hasattr model ''correct_spelling''
                 then (case correct_spelling model text of
                         Inl e \<Rightarrow> Inl (e, (results1, corrections))
                       | Inr corrected \<Rightarrow>
                           Inr (results1, setitem corrections model_name corrected))
                 else Inr (results1, corrections))))"

text \<open>
  The handler:
  \<^verbatim>\<open>results[model_name] = [('error', f'Error processing text: {str(e)}', text)]\<close>.
\<close>

definition error_entry :: "exn \<Rightarrow> pystr \<Rightarrow> error_rec list" where
  "error_entry e text = [(lit ''error'', lit ''Error processing text: '' @ exn_str e, text)]"

definition except_block :: "exn \<Rightarrow> pystr \<Rightarrow> pystr \<Rightarrow> analysis \<Rightarrow> analysis" where
  "except_block e text model_name st =
     (case st of (results, corrections) \<Rightarrow>
        (setitem results model_name (error_entry e text), corrections))"

text \<open>
  The loop over \<^verbatim>\<open>self.models.items()\<close>. The result type keeps a place for an
  exception leaving \<^verbatim>\<open>analyze_text\<close>; that it is never taken is a theorem below.
\<close>

fun analyze_loop ::
  "pystr \<Rightarrow> bool \<Rightarrow> bool \<Rightarrow> (pystr, checker) dict \<Rightarrow> analysis \<Rightarrow> exn + analysis" where
  "analyze_loop text check_spelling check_grammar [] st = Inr st"
| "analyze_loop text check_spelling check_grammar ((model_name, model) # rest) st =
     (case try_block text check_spelling check_grammar model_name model st of
        Inl (e, st') \<Rightarrow>
          analyze_loop text check_spelling check_grammar rest
            (except_block e text model_name st')
      | Inr st' \<Rightarrow> analyze_loop text check_spelling check_grammar rest st')"

definition analyze_text :: "analyzer \<Rightarrow> pystr \<Rightarrow> bool \<Rightarrow> bool \<Rightarrow> exn + analysis" where
  "analyze_text self text check_spelling check_grammar =
     analyze_loop text check_spelling check_grammar (models self) ([], [])"

subsection \<open>create\_error\_visualization\<close>

text \<open>
  The function first builds \<^verbatim>\<open>error_data\<close>, a list of rows
  \<^verbatim>\<open>{'Model': ..., 'Error Type': ..., 'Count': 1}\<close>, and hands it to the plotting
  library when it is not empty. The rows are the tally; the drawing is outside the
  model, so the function's result is the table it draws, if any.
\<close>

record row =
  Model :: pystr
  Error_Type :: pystr
  Count :: nat

definition error_types :: "error_rec list \<Rightarrow> pystr list" where
  "error_types errors = map fst (filter (\<lambda>error. fst error \<noteq> lit ''error'') errors)"

definition error_data :: "(pystr, error_rec list) dict \<Rightarrow> row list" where
  "error_data results =
     concat (map (\<lambda>(model_name, errors).
                    map (\<lambda>error_type.
                           \<lparr>Model = model_name, Error_Type = error_type, Count = 1\<rparr>)
                        (error_types errors))
                 results)"

definition create_error_visualization :: "(pystr, error_rec list) dict \<Rightarrow> row list option" where
  "create_error_visualization results =
     (if error_data results \<noteq> [] then Some (error_data results) else None)"

section \<open>The part of the Python runtime the checkers use\<close>

subsection \<open>Whitespace, strip and split\<close>

text \<open>
  \<^verbatim>\<open>str.isspace\<close>, which is also what \<^verbatim>\<open>str.strip()\<close> removes and what \<^verbatim>\<open>\s\<close>
  matches in a \<^verbatim>\<open>str\<close> pattern: the 29 code points below.
\<close>

definition isspace :: "nat \<Rightarrow> bool" where
  "isspace c =
     ((0x09 \<le> c \<and> c \<le> 0x0D) \<or> (0x1C \<le> c \<and> c \<le> 0x20) \<or> c = 0x85 \<or> c = 0xA0 \<or>
      c = 0x1680 \<or> (0x2000 \<le> c \<and> c \<le> 0x200A) \<or> c = 0x2028 \<or> c = 0x2029 \<or>
      c = 0x202F \<or> c = 0x205F \<or> c = 0x3000)"

definition strip :: "pystr \<Rightarrow> pystr" where
  "strip s = rev (dropWhile isspace (rev (dropWhile isspace s)))"

text \<open>
  Splitting at every character of a set of delimiters: \<^verbatim>\<open>s.split(',')\<close> and
  \<^verbatim>\<open>re.split(r'[.!?\<dots>]', s)\<close> with a one-character class. Empty pieces are kept,
  and the empty string gives one empty piece.
\<close>

fun split_on :: "(nat \<Rightarrow> bool) \<Rightarrow> pystr \<Rightarrow> pystr list" where
  "split_on d [] = [[]]"
| "split_on d (c # cs) =
     (if d c then [] # split_on d cs
      else (case split_on d cs of [] \<Rightarrow> [[c]] | w # ws \<Rightarrow> (c # w) # ws))"

text \<open>
  The class \<^verbatim>\<open>[.!?\<dots>]\<close> of both \<^verbatim>\<open>split_sentences\<close>: full stop, exclamation mark,
  question mark and the danda U+0964.
\<close>

definition sentence_end :: "nat \<Rightarrow> bool" where
  "sentence_end c = (c = 0x2E \<or> c = 0x21 \<or> c = 0x3F \<or> c = 0x0964)"

text \<open>
  Decimal digits of a number, for the messages that print one.
\<close>

fun decimal :: "nat \<Rightarrow> pystr" where
  "decimal n = (if n < 10 then [0x30 + n] else decimal (n div 10) @ [0x30 + n mod 10])"

declare decimal.simps [simp del]

subsection \<open>Regular expressions\<close>

text \<open>
  The patterns of the three checkers are sequences of single characters, of the
  classes \<^verbatim>\<open>.\<close>, \<^verbatim>\<open>\w\<close>, \<^verbatim>\<open>\s\<close> and a range \<^verbatim>\<open>[a-b]\<close>, each taken once or
  under \<^verbatim>\<open>*\<close> or \<^verbatim>\<open>+\<close>. \<^verbatim>\<open>.\<close> is every character but the line feed. \<^verbatim>\<open>\w\<close> is
  the underscore and every character the interpreter's Unicode tables call
  alphanumeric; those tables are not part of the repository, so the predicate is a
  parameter \<open>w\<close> of the matcher.
\<close>

datatype cls = Chr nat | Dot | Word | Space | Range nat nat

datatype atom = One cls | Star cls | Plus cls

type_synonym regex = "atom list"

fun cls_match :: "(nat \<Rightarrow> bool) \<Rightarrow> cls \<Rightarrow> nat \<Rightarrow> bool" where
  "cls_match w (Chr k) c = (c = k)"
| "cls_match w Dot c = (c \<noteq> 0x0A)"
| "cls_match w Word c = (w c \<or> c = 0x5F)"
| "cls_match w Space c = isspace c"
| "cls_match w (Range lo hi) c = (lo \<le> c \<and> c \<le> hi)"

definition re_lit :: "pystr \<Rightarrow> regex" where
  "re_lit s = map (\<lambda>c. One (Chr c)) s"

text \<open>
  \<open>match_here w p s\<close> is the backtracking matcher anchored at the start of \<open>s\<close>: the
  length of the match it finds first, if any. A starred class takes one more character
  before it tries the rest of the pattern, so the longest repetition is tried first,
  as a greedy quantifier does.
\<close>

fun match_here :: "(nat \<Rightarrow> bool) \<Rightarrow> regex \<Rightarrow> pystr \<Rightarrow> nat option" where
  "match_here w [] s = Some 0"
| "match_here w (One k # p) [] = None"
| "match_here w (One k # p) (c # s) =
     (if cls_match w k c then map_option Suc (match_here w p s) else None)"
| "match_here w (Plus k # p) [] = None"
| "match_here w (Plus k # p) (c # s) =
     (if cls_match w k c then map_option Suc (match_here w (Star k # p) s) else None)"
| "match_here w (Star k # p) [] = match_here w p []"
| "match_here w (Star k # p) (c # s) =
     (if cls_match w k c
      then (case match_here w (Star k # p) s of
              Some n \<Rightarrow> Some (Suc n)
            | None \<Rightarrow> match_here w p (c # s))
      else match_here w p (c # s))"

text \<open>\<^verbatim>\<open>re.match\<close> and \<^verbatim>\<open>re.search\<close>, as the truth value the checkers test.\<close>

definition re_match :: "(nat \<Rightarrow> bool) \<Rightarrow> regex \<Rightarrow> pystr \<Rightarrow> bool" where
  "re_match w p s = (match_here w p s \<noteq> None)"

fun re_search :: "(nat \<Rightarrow> bool) \<Rightarrow> regex \<Rightarrow> pystr \<Rightarrow> bool" where
  "re_search w p [] = (match_here w p [] \<noteq> None)"
| "re_search w p (c # s) = (match_here w p (c # s) \<noteq> None \<or> re_search w p s)"

text \<open>
  \<^verbatim>\<open>re.finditer\<close>: the matched substrings (\<^verbatim>\<open>match.group()\<close>) from left to right,
  without overlap. The second argument counts the characters still covered by the
  last match. No pattern of the repository matches the empty string, and the scan
  stops at the end of the string.
\<close>

fun finditer_from :: "(nat \<Rightarrow> bool) \<Rightarrow> regex \<Rightarrow> nat \<Rightarrow> pystr \<Rightarrow> pystr list" where
  "finditer_from w p k [] = []"
| "finditer_from w p (Suc k) (c # s) = finditer_from w p k s"
| "finditer_from w p 0 (c # s) =
     (case match_here w p (c # s) of
        None \<Rightarrow> finditer_from w p 0 s
      | Some n \<Rightarrow> take n (c # s) # finditer_from w p (n - 1) s)"

definition re_finditer :: "(nat \<Rightarrow> bool) \<Rightarrow> regex \<Rightarrow> pystr \<Rightarrow> pystr list" where
  "re_finditer w p s = finditer_from w p 0 s"

section \<open>Tamil literals of the sources\<close>

text \<open>
  Every Tamil string of the rule tables and of the dictionary, code point by code
  point as it stands in the source files (the name is a transliteration).
\<close>

definition ta_naan :: pystr where
  "ta_naan = [0x0BA8, 0x0BBE, 0x0BA9, 0x0BCD]"

definition ta_nii :: pystr where
  "ta_nii = [0x0BA8, 0x0BC0]"

definition ta_naangal :: pystr where
  "ta_naangal = [0x0BA8, 0x0BBE, 0x0B99, 0x0BCD, 0x0B95, 0x0BB3, 0x0BCD]"

definition ta_niingal :: pystr where
  "ta_niingal = [0x0BA8, 0x0BC0, 0x0B99, 0x0BCD, 0x0B95, 0x0BB3, 0x0BCD]"

definition ta_aasiriyar :: pystr where
  "ta_aasiriyar = [0x0B86, 0x0B9A, 0x0BBF, 0x0BB0, 0x0BBF, 0x0BAF, 0x0BB0, 0x0BCD]"

definition ta_avar :: pystr where
  "ta_avar = [0x0B85, 0x0BB5, 0x0BB0, 0x0BCD]"

definition ta_kiraarkal :: pystr where
  "ta_kiraarkal = [0x0B95, 0x0BBF, 0x0BB1, 0x0BBE, 0x0BB0, 0x0BCD, 0x0B95, 0x0BB3, 0x0BCD]"

definition ta_kiraar :: pystr where
  "ta_kiraar = [0x0B95, 0x0BBF, 0x0BB1, 0x0BBE, 0x0BB0, 0x0BCD]"

definition ta_kiradhu :: pystr where
  "ta_kiradhu = [0x0B95, 0x0BBF, 0x0BB1, 0x0BA4, 0x0BC1]"

definition ta_kiraan :: pystr where
  "ta_kiraan = [0x0B95, 0x0BBF, 0x0BB1, 0x0BBE, 0x0BA9, 0x0BCD]"

definition ta_kiraal :: pystr where
  "ta_kiraal = [0x0B95, 0x0BBF, 0x0BB1, 0x0BBE, 0x0BB3, 0x0BCD]"

definition ta_kireen :: pystr where
  "ta_kireen = [0x0B95, 0x0BBF, 0x0BB1, 0x0BC7, 0x0BA9, 0x0BCD]"

definition ta_kiroom :: pystr where
  "ta_kiroom = [0x0B95, 0x0BBF, 0x0BB1, 0x0BCB, 0x0BAE, 0x0BCD]"

definition ta_kiriirkal :: pystr where
  "ta_kiriirkal = [0x0B95, 0x0BBF, 0x0BB1, 0x0BC0, 0x0BB0, 0x0BCD, 0x0B95, 0x0BB3, 0x0BCD]"

definition ta_sal :: pystr where
  "ta_sal = [0x0B9A, 0x0BB2, 0x0BCD]"

definition ta_sel :: pystr where
  "ta_sel = [0x0B9A, 0x0BC6, 0x0BB2, 0x0BCD]"

definition ta_badhil :: pystr where
  "ta_badhil = [0x0BAA, 0x0BA4, 0x0BBF, 0x0BB2, 0x0BCD]"

definition ta_badhivu :: pystr where
  "ta_badhivu = [0x0BAA, 0x0BA4, 0x0BBF, 0x0BB5, 0x0BC1]"

definition ta_enga :: pystr where
  "ta_enga = [0x0B8E, 0x0B99, 0x0BCD, 0x0B95]"

definition ta_engee :: pystr where
  "ta_engee = [0x0B8E, 0x0B99, 0x0BCD, 0x0B95, 0x0BC7]"

definition ta_kku :: pystr where
  "ta_kku = [0x0B95, 0x0BCD, 0x0B95, 0x0BC1]"

definition ta_yil :: pystr where
  "ta_yil = [0x0BAF, 0x0BBF, 0x0BB2, 0x0BCD]"

definition ta_udan :: pystr where
  "ta_udan = [0x0B89, 0x0B9F, 0x0BA9, 0x0BCD]"

definition ta_palli :: pystr where
  "ta_palli = [0x0BAA, 0x0BB3, 0x0BCD, 0x0BB3, 0x0BBF]"

definition ta_pallikku :: pystr where
  "ta_pallikku = [0x0BAA, 0x0BB3, 0x0BCD, 0x0BB3, 0x0BBF, 0x0B95, 0x0BCD, 0x0B95, 0x0BC1]"

definition ta_selkireen :: pystr where
  "ta_selkireen = [0x0B9A, 0x0BC6, 0x0BB2, 0x0BCD, 0x0B95, 0x0BBF, 0x0BB1, 0x0BC7, 0x0BA9, 0x0BCD]"

definition ta_selkiraan :: pystr where
  "ta_selkiraan = [0x0B9A, 0x0BC6, 0x0BB2, 0x0BCD, 0x0B95, 0x0BBF, 0x0BB1, 0x0BBE, 0x0BA9, 0x0BCD]"

definition ta_selkiraal :: pystr where
  "ta_selkiraal = [0x0B9A, 0x0BC6, 0x0BB2, 0x0BCD, 0x0B95, 0x0BBF, 0x0BB1, 0x0BBE, 0x0BB3, 0x0BCD]"

definition ta_selkiradhu :: pystr where
  "ta_selkiradhu = [0x0B9A, 0x0BC6, 0x0BB2, 0x0BCD, 0x0B95, 0x0BBF, 0x0BB1, 0x0BA4, 0x0BC1]"

definition ta_padikkiroom :: pystr where
  "ta_padikkiroom = [0x0BAA, 0x0B9F, 0x0BBF, 0x0B95, 0x0BCD, 0x0B95, 0x0BBF, 0x0BB1, 0x0BCB, 0x0BAE, 0x0BCD]"

definition ta_paadal :: pystr where
  "ta_paadal = [0x0BAA, 0x0BBE, 0x0B9F, 0x0BB2, 0x0BCD]"

definition ta_paadukireen :: pystr where
  "ta_paadukireen = [0x0BAA, 0x0BBE, 0x0B9F, 0x0BC1, 0x0B95, 0x0BBF, 0x0BB1, 0x0BC7, 0x0BA9, 0x0BCD]"

definition ta_nalla :: pystr where
  "ta_nalla = [0x0BA8, 0x0BB2, 0x0BCD, 0x0BB2]"

definition ta_paadangalai :: pystr where
  "ta_paadangalai = [0x0BAA, 0x0BBE, 0x0B9F, 0x0B99, 0x0BCD, 0x0B95, 0x0BB3, 0x0BC8]"

definition ta_katruk :: pystr where
  "ta_katruk = [0x0B95, 0x0BB1, 0x0BCD, 0x0BB1, 0x0BC1, 0x0B95, 0x0BCD]"

definition ta_kodukkiraar :: pystr where
  "ta_kodukkiraar = [0x0B95, 0x0BCA, 0x0B9F, 0x0BC1, 0x0B95, 0x0BCD, 0x0B95, 0x0BBF, 0x0BB1, 0x0BBE, 0x0BB0, 0x0BCD]"

section \<open>What the checkers take from outside the repository\<close>

text \<open>
  The checkers call libraries and read a file. None of that is code of the repository,
  so each such call is a parameter, gathered in one record:
  \<^item> \<open>isalnum\<close>, \<open>isdigit\<close>: the interpreter's Unicode tables, behind \<^verbatim>\<open>\w\<close> and
    \<^verbatim>\<open>char.isdigit()\<close>;
  \<^item> \<open>trivial_tokenize\<close>: the tokenizer of indicnlp;
  \<^item> \<open>dictionary_file\<close>: what opening and reading \<^verbatim>\<open>data/tamil_dictionary.txt\<close>
    gives;
  \<^item> \<open>from_pretrained\<close>: loading the tokenizer and the masked language model, which
    either raises or gives the computation inside the \<^verbatim>\<open>try\<close> of
    \<^verbatim>\<open>_assess_word_probability\<close>, from a sentence to its list of words with
    probabilities (it may raise);
  \<^item> \<open>format_percent\<close>: the format \<^verbatim>\<open>:.2%\<close> of a float;
  \<^item> \<open>sklearn_fit\<close>: building and training the vectorizers and classifiers in the
    constructor of the statistical checker, which either raises or gives the trained
    objects.
  A float is read as the rational it stands for.
\<close>

datatype file_result = FileNotFoundError | OtherError exn | Lines "pystr list"

type_synonym word_scores = "(pystr \<times> rat) list"

type_synonym features = "rat list list"

record fitted =
  transform :: "pystr \<Rightarrow> exn + features"
  spelling_predict_proba :: "features \<Rightarrow> exn + rat list list"
  grammar_predict_proba :: "features \<Rightarrow> exn + rat list list"

record env =
  isalnum :: "nat \<Rightarrow> bool"
  isdigit :: "nat \<Rightarrow> bool"
  trivial_tokenize :: "pystr \<Rightarrow> exn + pystr list"
  dictionary_file :: file_result
  from_pretrained :: "exn + (pystr \<Rightarrow> exn + word_scores)"
  format_percent :: "rat \<Rightarrow> pystr"
  sklearn_fit :: "exn + fitted"

text \<open>
  None of the three checker classes defines \<^verbatim>\<open>correct_spelling\<close>; calling it on
  one of their objects raises AttributeError with the interpreter's message.
\<close>

definition attribute_error :: "string \<Rightarrow> string \<Rightarrow> pystr \<Rightarrow> exn + pystr" where
  "attribute_error class_name name text =
     Inl (Exception ([0x27] @ lit class_name @ [0x27] @ lit '' object has no attribute '' @
                     [0x27] @ lit name @ [0x27]))"

section \<open>models/rule\_based\_model.py\<close>

record RuleBasedChecker =
  tamil_words :: "(pystr, pystr) dict"

subsection \<open>The rule tables of the constructor\<close>

definition subject_verb_agreement :: "(regex \<times> pystr) list" where
  "subject_verb_agreement =
     [(re_lit ta_naan @ [Star Dot] @ re_lit ta_kiraarkal,
         lit ''First person singular with plural verb''),
      (re_lit ta_naan @ [Star Dot] @ re_lit ta_kiraar,
         lit ''First person singular with formal verb''),
      (re_lit ta_naan @ [Star Dot] @ re_lit ta_kiradhu,
         lit ''First person with neuter verb''),
      (re_lit ta_naangal @ [Star Dot] @ re_lit ta_kiraan,
         lit ''First person plural with singular verb''),
      (re_lit ta_naangal @ [Star Dot] @ re_lit ta_kiraal,
         lit ''First person plural with feminine singular''),
      (re_lit ta_nii @ [Star Dot] @ re_lit ta_kiraarkal,
         lit ''Second person singular with plural verb''),
      (re_lit ta_niingal @ [Star Dot] @ re_lit ta_kiraan,
         lit ''Second person plural with singular verb''),
      (re_lit ta_aasiriyar @ [Star Dot] @ re_lit ta_kiraan,
         lit ''Honorific subject with informal verb'')]"

definition spelling_patterns :: "(regex \<times> pystr) list" where
  "spelling_patterns =
     [(re_lit ta_sal, lit ''Possible misspelling of '' @ ta_sel),
      (re_lit ta_badhil, lit ''Possible misspelling of '' @ ta_badhivu),
      (re_lit ta_enga, lit ''Possible misspelling of '' @ ta_engee)]"

definition word_spacing :: "(regex \<times> pystr) list" where
  "word_spacing =
     [([Plus Word] @ re_lit ta_kku @ [Plus Word], lit ''Missing space before '' @ ta_kku),
      ([Plus Word] @ re_lit ta_yil @ [Plus Word], lit ''Missing space before '' @ ta_yil),
      ([Plus Word] @ re_lit ta_udan @ [Plus Word], lit ''Missing space before '' @ ta_udan)]"

subsection \<open>\_load\_tamil\_dictionary\<close>

definition basic_dictionary :: "(pystr, pystr) dict" where
  "basic_dictionary =
     [(ta_naan, lit ''pronoun''),
      (ta_nii, lit ''pronoun''),
      (ta_naangal, lit ''pronoun''),
      (ta_palli, lit ''noun''),
      (ta_pallikku, lit ''noun''),
      (ta_selkireen, lit ''verb''),
      (ta_selkiraan, lit ''verb''),
      (ta_selkiraal, lit ''verb''),
      (ta_selkiradhu, lit ''verb''),
      (ta_padikkiroom, lit ''verb''),
      (ta_paadal, lit ''noun''),
      (ta_paadukireen, lit ''verb''),
      (ta_aasiriyar, lit ''noun''),
      (ta_nalla, lit ''adjective''),
      (ta_paadangalai, lit ''noun''),
      (ta_katruk, lit ''verb''),
      (ta_kodukkiraar, lit ''verb'')]"

text \<open>
  The loop over the lines of the file: a line that is not blank is stripped and split at
  commas, and with two parts or more the first becomes a word of the dictionary.
\<close>

fun load_lines :: "(pystr, pystr) dict \<Rightarrow> pystr list \<Rightarrow> (pystr, pystr) dict" where
  "load_lines d [] = d"
| "load_lines d (line # rest) =
     (if strip line \<noteq> []
      then (let parts = split_on (\<lambda>c. c = 0x2C) (strip line)
            in if length parts \<ge> 2
               then load_lines (setitem d (parts ! 0) (parts ! 1)) rest
               else load_lines d rest)
      else load_lines d rest)"

text \<open>
  Only \<^verbatim>\<open>FileNotFoundError\<close> is caught; any other failure of the file leaves the
  method, and with it the constructor.
\<close>

definition RuleBasedChecker_load_tamil_dictionary ::
  "env \<Rightarrow> exn + (pystr, pystr) dict" where
  "RuleBasedChecker_load_tamil_dictionary ev =
     (case dictionary_file ev of
        FileNotFoundError \<Rightarrow> Inr basic_dictionary
      | OtherError e \<Rightarrow> Inl e
      | Lines ls \<Rightarrow> Inr (load_lines basic_dictionary ls))"

definition RuleBasedChecker_init :: "env \<Rightarrow> exn + RuleBasedChecker" where
  "RuleBasedChecker_init ev =
     (case RuleBasedChecker_load_tamil_dictionary ev of
        Inl e \<Rightarrow> Inl e
      | Inr d \<Rightarrow> Inr \<lparr>tamil_words = d\<rparr>)"

subsection \<open>The checks\<close>

definition RuleBasedChecker_split_sentences :: "pystr \<Rightarrow> pystr list" where
  "RuleBasedChecker_split_sentences text =
     [strip s. s \<leftarrow> split_on sentence_end text, strip s \<noteq> []]"

text \<open>The body of the loop of \<^verbatim>\<open>check_spelling\<close>, for one word.\<close>

definition RuleBasedChecker_check_word ::
  "env \<Rightarrow> RuleBasedChecker \<Rightarrow> pystr \<Rightarrow> error_rec list" where
  "RuleBasedChecker_check_word ev self word =
     [(lit ''spelling'', m, word). (pattern, m) \<leftarrow> spelling_patterns,
        re_match (isalnum ev) pattern word] @
     (if word \<notin> set (keys (tamil_words self)) \<and> \<not> list_ex (isdigit ev) word
      then [(lit ''spelling'', lit ''Unknown word: '' @ word, word)] else []) @
     [(lit ''spelling'', m, word). (pattern, m) \<leftarrow> word_spacing,
        re_match (isalnum ev) pattern word]"

definition RuleBasedChecker_check_spelling ::
  "env \<Rightarrow> RuleBasedChecker \<Rightarrow> pystr \<Rightarrow> exn + error_rec list" where
  "RuleBasedChecker_check_spelling ev self text =
     (case trivial_tokenize ev text of
        Inl e \<Rightarrow> Inl e
      | Inr words \<Rightarrow> Inr (concat (map (RuleBasedChecker_check_word ev self) words)))"

definition RuleBasedChecker_check_grammar :: "env \<Rightarrow> pystr \<Rightarrow> error_rec list" where
  "RuleBasedChecker_check_grammar ev text =
     concat (map (\<lambda>sentence.
                    [(lit ''grammar'', error_msg, sentence).
                       (pattern, error_msg) \<leftarrow> subject_verb_agreement,
                       re_search (isalnum ev) pattern sentence])
                 (RuleBasedChecker_split_sentences text))"

text \<open>The body of the \<^verbatim>\<open>try\<close> of \<^verbatim>\<open>check_text\<close>, then the method with its handler.\<close>

definition RuleBasedChecker_body ::
  "env \<Rightarrow> RuleBasedChecker \<Rightarrow> pystr \<Rightarrow> exn + error_rec list" where
  "RuleBasedChecker_body ev self text =
     (case RuleBasedChecker_check_spelling ev self text of
        Inl e \<Rightarrow> Inl e
      | Inr spelling_errors \<Rightarrow>
          (let grammar_errors = RuleBasedChecker_check_grammar ev text;
               all_errors = spelling_errors @ grammar_errors
           in Inr (if all_errors \<noteq> [] then all_errors else [])))"

definition RuleBasedChecker_check_text ::
  "env \<Rightarrow> RuleBasedChecker \<Rightarrow> pystr \<Rightarrow> exn + error_rec list" where
  "RuleBasedChecker_check_text ev self text =
     (case RuleBasedChecker_body ev self text of
        Inl e \<Rightarrow> Inr [(lit ''error'', lit ''Error in text analysis: '' @ exn_str e, text)]
      | Inr all_errors \<Rightarrow> Inr all_errors)"

text \<open>The object as \<^verbatim>\<open>analyze_text\<close> sees it, with the attributes the class gives it.\<close>

definition RuleBasedChecker_object :: "env \<Rightarrow> RuleBasedChecker \<Rightarrow> checker" where
  "RuleBasedChecker_object ev self =
     \<lparr>check_text = RuleBasedChecker_check_text ev self,
      attr_names = [''tamil_words'', ''grammar_rules'', ''_load_tamil_dictionary'',
                    ''split_sentences'', ''check_spelling'', ''check_grammar'', ''check_text''],
      correct_spelling = attribute_error ''RuleBasedChecker'' ''correct_spelling''\<rparr>"

section \<open>models/deep\_learning\_model.py\<close>

text \<open>
  \<^verbatim>\<open>_initialize_model\<close> catches every failure of the download and then sets both
  \<^verbatim>\<open>self.tokenizer\<close> and \<^verbatim>\<open>self.model\<close> to \<^verbatim>\<open>None\<close>; the two are present
  together or absent together, so the object holds one optional field. The word table
  \<^verbatim>\<open>tamil_dict\<close> is stored by the constructor and read by no method.
\<close>

record DeepLearningChecker =
  tokenizer_model :: "(pystr \<Rightarrow> exn + word_scores) option"

definition DeepLearningChecker_initialize_model ::
  "env \<Rightarrow> (pystr \<Rightarrow> exn + word_scores) option" where
  "DeepLearningChecker_initialize_model ev =
     (case from_pretrained ev of Inl e \<Rightarrow> None | Inr m \<Rightarrow> Some m)"

definition DeepLearningChecker_init :: "env \<Rightarrow> exn + DeepLearningChecker" where
  "DeepLearningChecker_init ev =
     Inr \<lparr>tokenizer_model = DeepLearningChecker_initialize_model ev\<rparr>"

definition tamil_patterns :: "(pystr \<times> (regex \<times> pystr) list) list" where
  "tamil_patterns =
     [(lit ''grammar'',
       [(re_lit ta_naan @ [Star Dot] @ re_lit ta_kiradhu,
           lit ''First person with neuter verb - use '' @ ta_kireen @ lit '' instead''),
        (re_lit ta_naangal @ [Star Dot] @ re_lit ta_kiraan,
           lit ''Plural subject with singular verb - use '' @ ta_kiroom @ lit '' instead''),
        (re_lit ta_avar @ [Star Dot] @ re_lit ta_kireen,
           lit ''Third person honorific with first person verb - use '' @ ta_kiraar @
           lit '' instead''),
        (re_lit ta_niingal @ [Star Dot] @ re_lit ta_kiraan,
           lit ''Honorific subject with informal verb - use '' @ ta_kiriirkal @
           lit '' instead'')]),
      (lit ''spelling'',
       [(re_lit ta_sal, ta_sel), (re_lit ta_badhil, ta_badhivu), (re_lit ta_enga, ta_engee)]),
      (lit ''spacing'',
       [([Plus Word] @ re_lit ta_kku @ [Plus Word], lit ''Add space before '' @ ta_kku),
        ([Plus Word] @ re_lit ta_yil @ [Plus Word], lit ''Add space before '' @ ta_yil),
        ([Plus Word] @ re_lit ta_udan @ [Plus Word], lit ''Add space before '' @ ta_udan)])]"

text \<open>
  \<^verbatim>\<open>_assess_word_probability\<close> returns the empty list when the model is absent and
  when anything inside its own \<^verbatim>\<open>try\<close> raises.
\<close>

definition DeepLearningChecker_assess_word_probability ::
  "DeepLearningChecker \<Rightarrow> pystr \<Rightarrow> word_scores" where
  "DeepLearningChecker_assess_word_probability self text =
     (case tokenizer_model self of
        None \<Rightarrow> []
      | Some m \<Rightarrow> (case m text of Inl e \<Rightarrow> [] | Inr word_scores \<Rightarrow> word_scores))"

text \<open>The record \<^verbatim>\<open>_check_patterns\<close> appends for one match of one pattern.\<close>

definition pattern_error :: "pystr \<Rightarrow> pystr \<Rightarrow> pystr \<Rightarrow> pystr \<Rightarrow> error_rec" where
  "pattern_error error_type correction matched text =
     (if error_type = lit ''spelling''
      then (lit ''spelling'',
            lit ''Suggestion: Replace '' @ [0x22] @ matched @ [0x22] @ lit '' with '' @
            [0x22] @ correction @ [0x22],
            text)
      else if error_type = lit ''grammar''
      then (lit ''grammar'', correction, text)
      else (lit ''format'', correction, text))"

definition DeepLearningChecker_check_patterns :: "env \<Rightarrow> pystr \<Rightarrow> error_rec list" where
  "DeepLearningChecker_check_patterns ev text =
     concat (map (\<lambda>(error_type, patterns).
                    concat (map (\<lambda>(pattern, correction).
                                   map (\<lambda>matched. pattern_error error_type correction matched text)
                                       (re_finditer (isalnum ev) pattern text))
                                patterns))
                 tamil_patterns)"

definition DeepLearningChecker_split_sentences :: "pystr \<Rightarrow> pystr list" where
  "DeepLearningChecker_split_sentences text =
     [strip s. s \<leftarrow> split_on sentence_end text, strip s \<noteq> []]"

text \<open>The float \<^verbatim>\<open>0.1\<close> of the test \<^verbatim>\<open>prob < 0.1\<close>, exactly.\<close>

definition float_0_1 :: rat where
  "float_0_1 = 3602879701896397 / 36028797018963968"

definition unusual_words :: "env \<Rightarrow> DeepLearningChecker \<Rightarrow> pystr \<Rightarrow> error_rec list" where
  "unusual_words ev self sentence =
     [(lit ''spelling'',
       lit ''Unusual word detected: '' @ [0x22] @ word @ [0x22] @ lit '' (confidence: '' @
       format_percent ev prob @ lit '')'',
       sentence).
        (word, prob) \<leftarrow> DeepLearningChecker_assess_word_probability self sentence,
        prob < float_0_1]"

definition DeepLearningChecker_body ::
  "env \<Rightarrow> DeepLearningChecker \<Rightarrow> pystr \<Rightarrow> exn + error_rec list" where
  "DeepLearningChecker_body ev self text =
     Inr (concat (map (\<lambda>sentence.
                         DeepLearningChecker_check_patterns ev sentence @
                         unusual_words ev self sentence)
                      (DeepLearningChecker_split_sentences text)))"

definition DeepLearningChecker_check_text ::
  "env \<Rightarrow> DeepLearningChecker \<Rightarrow> pystr \<Rightarrow> exn + error_rec list" where
  "DeepLearningChecker_check_text ev self text =
     (case DeepLearningChecker_body ev self text of
        Inl e \<Rightarrow> Inr [(lit ''error'', lit ''Error in analysis: '' @ exn_str e, text)]
      | Inr errors \<Rightarrow> Inr errors)"

definition DeepLearningChecker_object :: "env \<Rightarrow> DeepLearningChecker \<Rightarrow> checker" where
  "DeepLearningChecker_object ev self =
     \<lparr>check_text = DeepLearningChecker_check_text ev self,
      attr_names = [''tokenizer'', ''model'', ''tamil_patterns'', ''tamil_dict'',
                    ''_initialize_model'', ''_load_tamil_dictionary'', ''_load_tamil_patterns'',
                    ''_assess_word_probability'', ''_check_patterns'', ''_split_sentences'',
                    ''check_text'', ''get_correction_suggestions''],
      correct_spelling = attribute_error ''DeepLearningChecker'' ''correct_spelling''\<rparr>"

section \<open>models/statistical\_model.py\<close>

record StatisticalChecker =
  trained :: fitted

definition StatisticalChecker_init :: "env \<Rightarrow> exn + StatisticalChecker" where
  "StatisticalChecker_init ev =
     (case sklearn_fit ev of
        Inl e \<Rightarrow> Inl e
      | Inr f \<Rightarrow> Inr \<lparr>trained = f\<rparr>)"

definition common_errors :: "(regex \<times> pystr) list" where
  "common_errors =
     [([Plus Word] @ re_lit ta_kiraan @ [Plus Space, Plus Word] @ re_lit ta_kiraal,
         lit ''Inconsistent gender agreement''),
      ([Plus Word] @ re_lit ta_kireen @ [Plus Space, Plus Word] @ re_lit ta_kiraar,
         lit ''Inconsistent honorific usage''),
      ([One (Range 0x0B85 0x0B94), Plus Space, One (Range 0x0BBE 0x0BCC)],
         lit ''Invalid vowel mark placement'')]"

definition context_rules :: "(regex \<times> pystr) list" where
  "context_rules =
     [(re_lit ta_naan @ [Star Dot] @ re_lit ta_kiraarkal, lit ''subject_verb_mismatch''),
      (re_lit ta_naangal @ [Star Dot] @ re_lit ta_kiraan, lit ''number_mismatch'')]"

definition StatisticalChecker_analyze_patterns :: "env \<Rightarrow> pystr \<Rightarrow> error_rec list" where
  "StatisticalChecker_analyze_patterns ev text =
     [(lit ''statistical'', lit ''Pattern error: '' @ m, text).
        (pattern, m) \<leftarrow> common_errors, re_search (isalnum ev) pattern text] @
     [(lit ''statistical'', lit ''Context error: '' @ error_type, text).
        (pattern, error_type) \<leftarrow> context_rules, re_search (isalnum ev) pattern text]"

text \<open>
  Indexing an array: out of range it raises IndexError, with numpy's message.
\<close>

definition np_index :: "'a list \<Rightarrow> nat \<Rightarrow> exn + 'a" where
  "np_index xs i =
     (if i < length xs then Inr (xs ! i)
      else Inl (Exception (lit ''index '' @ decimal i @
                           lit '' is out of bounds for axis 0 with size '' @
                           decimal (length xs))))"

text \<open>
  \<^verbatim>\<open>model.predict_proba(features)[0]\<close>: the first row of the predicted
  probabilities.
\<close>

definition first_row :: "exn + rat list list \<Rightarrow> exn + rat list" where
  "first_row predicted = (case predicted of Inl e \<Rightarrow> Inl e | Inr rows \<Rightarrow> np_index rows 0)"

text \<open>The float \<^verbatim>\<open>0.8\<close> of the two confidence tests, exactly.\<close>

definition float_0_8 :: rat where
  "float_0_8 = 3602879701896397 / 4503599627370496"

text \<open>
  One confidence check:
  \<^verbatim>\<open>if pred[0] < 0.8: errors.append(('statistical', f'\<dots>{pred[1]:.2%})', text))\<close>.
  It reads \<^verbatim>\<open>pred[1]\<close> only when the test holds.
\<close>

definition confidence_check ::
  "env \<Rightarrow> pystr \<Rightarrow> rat list \<Rightarrow> pystr \<Rightarrow> exn + error_rec list" where
  "confidence_check ev what pred text =
     (case np_index pred 0 of
        Inl e \<Rightarrow> Inl e
      | Inr p0 \<Rightarrow>
          if p0 < float_0_8
          then (case np_index pred 1 of
                  Inl e \<Rightarrow> Inl e
                | Inr p1 \<Rightarrow>
                    Inr [(lit ''statistical'',
                          lit ''Possible '' @ what @ lit '' errors (confidence: '' @
                          format_percent ev p1 @ lit '')'',
                          text)])
          else Inr [])"

definition StatisticalChecker_body ::
  "env \<Rightarrow> StatisticalChecker \<Rightarrow> pystr \<Rightarrow> exn + error_rec list" where
  "StatisticalChecker_body ev self text =
     (case transform (trained self) text of
        Inl e \<Rightarrow> Inl e
      | Inr features \<Rightarrow>
          (case first_row (spelling_predict_proba (trained self) features) of
             Inl e \<Rightarrow> Inl e
           | Inr spelling_pred \<Rightarrow>
               (case first_row (grammar_predict_proba (trained self) features) of
                  Inl e \<Rightarrow> Inl e
                | Inr grammar_pred \<Rightarrow>
                    (case confidence_check ev (lit ''spelling'') spelling_pred text of
                       Inl e \<Rightarrow> Inl e
                     | Inr errors1 \<Rightarrow>
                         (case confidence_check ev (lit ''grammar'') grammar_pred text of
                            Inl e \<Rightarrow> Inl e
                          | Inr errors2 \<Rightarrow>
                              Inr (errors1 @ errors2 @
                                   StatisticalChecker_analyze_patterns ev text))))))"

definition StatisticalChecker_check_text ::
  "env \<Rightarrow> StatisticalChecker \<Rightarrow> pystr \<Rightarrow> exn + error_rec list" where
  "StatisticalChecker_check_text ev self text =
     (case StatisticalChecker_body ev self text of
        Inl e \<Rightarrow> Inr [(lit ''error'', lit ''Error during analysis: '' @ exn_str e, text)]
      | Inr errors \<Rightarrow> Inr errors)"

definition StatisticalChecker_object :: "env \<Rightarrow> StatisticalChecker \<Rightarrow> checker" where
  "StatisticalChecker_object ev self =
     \<lparr>check_text = StatisticalChecker_check_text ev self,
      attr_names = [''word_vectorizer'', ''char_vectorizer'', ''spelling_model'',
                    ''grammar_model'', ''train_texts'', ''spelling_labels'', ''grammar_labels'',
                    ''error_patterns'', ''_train_models'', ''_extract_features'',
                    ''_analyze_patterns'', ''check_text''],
      correct_spelling = attribute_error ''StatisticalChecker'' ''correct_spelling''\<rparr>"

section \<open>The registry of TamilTextAnalyzer\<close>

text \<open>
  \<^verbatim>\<open>__init__\<close> builds the dict of models in one expression: the three constructors
  run in the order written, and an exception of any of them leaves \<^verbatim>\<open>__init__\<close>.
\<close>

definition TamilTextAnalyzer_init :: "env \<Rightarrow> exn + analyzer" where
  "TamilTextAnalyzer_init ev =
     (case RuleBasedChecker_init ev of
        Inl e \<Rightarrow> Inl e
      | Inr rule_based \<Rightarrow>
          (case DeepLearningChecker_init ev of
             Inl e \<Rightarrow> Inl e
           | Inr deep_learning \<Rightarrow>
               (case StatisticalChecker_init ev of
                  Inl e \<Rightarrow> Inl e
                | Inr statistical \<Rightarrow>
                    Inr \<lparr>models =
                           [(lit ''Rule-based'', RuleBasedChecker_object ev rule_based),
                            (lit ''Deep Learning'', DeepLearningChecker_object ev deep_learning),
                            (lit ''Statistical'', StatisticalChecker_object ev statistical)]\<rparr>)))"

section \<open>What one pass of the loop leaves behind\<close>

text \<open>
  \<open>entry\<close> is the value stored under a model's name once its iteration is over, and
  \<open>correction\<close> the value stored in \<^verbatim>\<open>corrections\<close>, if any. Both are stated from
  the model's point of view; the lemmas below show that the loop computes exactly these.
\<close>

definition raises :: "checker \<Rightarrow> pystr \<Rightarrow> exn option" where
  "raises model text =
     (case check_text model text of
        Inl e \<Rightarrow> Some e
      | Inr errors \<Rightarrow>
          if hasattr model ''correct_spelling''
          then (case correct_spelling model text of Inl e \<Rightarrow> Some e | Inr c \<Rightarrow> None)
          else None)"

definition entry :: "pystr \<Rightarrow> bool \<Rightarrow> bool \<Rightarrow> checker \<Rightarrow> error_rec list" where
  "entry text check_spelling check_grammar model =
     (case raises model text of
        Some e \<Rightarrow> error_entry e text
      | None \<Rightarrow>
          (case check_text model text of
             Inl e \<Rightarrow> error_entry e text
           | Inr errors \<Rightarrow> filter (keep check_spelling check_grammar) errors))"

definition correction :: "pystr \<Rightarrow> checker \<Rightarrow> pystr option" where
  "correction text model =
     (case check_text model text of
        Inl e \<Rightarrow> None
      | Inr errors \<Rightarrow>
          if hasattr model ''correct_spelling''
          then (case correct_spelling model text of Inl e \<Rightarrow> None | Inr c \<Rightarrow> Some c)
          else None)"

definition step :: "pystr \<Rightarrow> bool \<Rightarrow> bool \<Rightarrow> pystr \<Rightarrow> checker \<Rightarrow> analysis \<Rightarrow> analysis" where
  "step text check_spelling check_grammar model_name model st =
     (case try_block text check_spelling check_grammar model_name model st of
        Inl (e, st') \<Rightarrow> except_block e text model_name st'
      | Inr st' \<Rightarrow> st')"

definition corrections_of :: "pystr \<Rightarrow> (pystr, checker) dict \<Rightarrow> (pystr, pystr) dict" where
  "corrections_of text ms =
     concat (map (\<lambda>(model_name, model).
                    case correction text model of None \<Rightarrow> [] | Some c \<Rightarrow> [(model_name, c)]) ms)"

section \<open>Sample checkers\<close>

text \<open>
  \<^verbatim>\<open>analyze_text\<close> accepts any object with a \<^verbatim>\<open>check_text\<close>. The four objects below
  are the smallest ones that reach each branch of its loop: one whose \<^verbatim>\<open>check_text\<close>
  returns records, one whose \<^verbatim>\<open>check_text\<close> raises, and two that also have a
  \<^verbatim>\<open>correct_spelling\<close>, which returns for the first and raises for the second.
  Calling \<^verbatim>\<open>correct_spelling\<close> on an object without that attribute raises
  AttributeError.
\<close>

definition sample_records :: "pystr \<Rightarrow> error_rec list" where
  "sample_records text =
     [(lit ''spelling'', lit ''unknown word'', text),
      (lit ''info'', lit ''note'', text),
      (lit ''grammar'', lit ''agreement'', text),
      (lit ''spelling'', lit ''unknown word'', text)]"

definition no_attribute :: "pystr \<Rightarrow> exn + pystr" where
  "no_attribute text = Inl (Exception (lit ''object has no attribute correct_spelling''))"

definition plain_checker :: checker where
  "plain_checker =
     \<lparr>check_text = (\<lambda>text. Inr (sample_records text)),
      attr_names = [''check_text''],
      correct_spelling = no_attribute\<rparr>"

definition raising_checker :: checker where
  "raising_checker =
     \<lparr>check_text = (\<lambda>text. Inl (Exception (lit ''model crashed''))),
      attr_names = [''check_text''],
      correct_spelling = no_attribute\<rparr>"

definition correcting_checker :: checker where
  "correcting_checker =
     \<lparr>check_text = (\<lambda>text. Inr (sample_records text)),
      attr_names = [''check_text'', ''correct_spelling''],
      correct_spelling = (\<lambda>text. Inr (lit ''fixed: '' @ text))\<rparr>"

definition miscorrecting_checker :: checker where
  "miscorrecting_checker =
     \<lparr>check_text = (\<lambda>text. Inr (sample_records text)),
      attr_names = [''check_text'', ''correct_spelling''],
      correct_spelling = (\<lambda>text. Inl (Exception (lit ''no suggestions'')))\<rparr>"

definition sample_analyzer :: analyzer where
  "sample_analyzer =
     \<lparr>models = [(lit ''first'', raising_checker),
                (lit ''second'', plain_checker),
                (lit ''third'', correcting_checker)]\<rparr>"

definition miscorrecting_analyzer :: analyzer where
  "miscorrecting_analyzer =
     \<lparr>models = [(lit ''first'', plain_checker),
                (lit ''second'', miscorrecting_checker)]\<rparr>"

section \<open>Sample surroundings and inputs\<close>

text \<open>
  The Unicode tables restricted to ASCII and the Tamil block (U+0B80 to U+0BFF), which
  is all that the inputs below contain: letters and digits are alphanumeric, the Tamil
  vowel signs and the virama are not.
\<close>

definition tamil_isalnum :: "nat \<Rightarrow> bool" where
  "tamil_isalnum c =
     ((0x30 \<le> c \<and> c \<le> 0x39) \<or> (0x41 \<le> c \<and> c \<le> 0x5A) \<or> (0x61 \<le> c \<and> c \<le> 0x7A) \<or>
      c = 0x0B83 \<or> (0x0B85 \<le> c \<and> c \<le> 0x0B8A) \<or> (0x0B8E \<le> c \<and> c \<le> 0x0B90) \<or>
      (0x0B92 \<le> c \<and> c \<le> 0x0B95) \<or> c = 0x0B99 \<or> c = 0x0B9A \<or> c = 0x0B9C \<or>
      c = 0x0B9E \<or> c = 0x0B9F \<or> c = 0x0BA3 \<or> c = 0x0BA4 \<or>
      (0x0BA8 \<le> c \<and> c \<le> 0x0BAA) \<or> (0x0BAE \<le> c \<and> c \<le> 0x0BB9) \<or> c = 0x0BD0 \<or>
      (0x0BE6 \<le> c \<and> c \<le> 0x0BF2))"

definition tamil_isdigit :: "nat \<Rightarrow> bool" where
  "tamil_isdigit c = ((0x30 \<le> c \<and> c \<le> 0x39) \<or> (0x0BE6 \<le> c \<and> c \<le> 0x0BEF))"

text \<open>
  Trained objects as the six training sentences leave them: every label is 1, so each
  classifier knows one class and predicts it with probability 1.
\<close>

definition one_class :: fitted where
  "one_class =
     \<lparr>transform = (\<lambda>text. Inr [[]]),
      spelling_predict_proba = (\<lambda>features. Inr [[1]]),
      grammar_predict_proba = (\<lambda>features. Inr [[1]])\<rparr>"

text \<open>
  A machine without network and without the dictionary file: the language model cannot
  be loaded, the dictionary is the built-in one, and words are split at spaces.
\<close>

definition offline :: env where
  "offline =
     \<lparr>isalnum = tamil_isalnum,
      isdigit = tamil_isdigit,
      trivial_tokenize = (\<lambda>text. Inr (split_on (\<lambda>c. c = 0x20) text)),
      dictionary_file = FileNotFoundError,
      from_pretrained = Inl (Exception (lit ''no network'')),
      format_percent = (\<lambda>p. lit ''100.00%''),
      sklearn_fit = Inr one_class\<rparr>"

text \<open>The same machine with a dictionary file that cannot be read.\<close>

definition unreadable :: env where
  "unreadable = offline\<lparr>dictionary_file := OtherError (Exception (lit ''Permission denied''))\<rparr>"

text \<open>The same machine with a tokenizer and a vectorizer that raise.\<close>

definition failing :: env where
  "failing =
     offline\<lparr>trivial_tokenize := (\<lambda>text. Inl (Exception (lit ''tokenizer failed''))),
             sklearn_fit := Inr (one_class\<lparr>transform :=
                                   (\<lambda>text. Inl (Exception (lit ''not fitted'')))\<rparr>)\<rparr>"

text \<open>A deep-learning checker whose loaded model raises on every sentence.\<close>

definition crashing :: DeepLearningChecker where
  "crashing = \<lparr>tokenizer_model = Some (\<lambda>sentence. Inl (Exception (lit ''out of memory'')))\<rparr>"

text \<open>
  The example \<^verbatim>\<open>'Grammar error'\<close> of main.py, and a word written without the space
  before its case suffix.
\<close>

definition grammar_error_text :: pystr where
  "grammar_error_text =
     [0x0BA8, 0x0BBE, 0x0BA9, 0x0BCD, 0x0020,
      0x0BAA, 0x0BB3, 0x0BCD, 0x0BB3, 0x0BBF, 0x0B95, 0x0BCD, 0x0B95, 0x0BC1, 0x0020,
      0x0B9A, 0x0BC6, 0x0BB2, 0x0BCD, 0x0B95, 0x0BBF, 0x0BB1, 0x0BA4, 0x0BC1]"

definition unakkuthaan :: pystr where
  "unakkuthaan = [0x0B89, 0x0BA9, 0x0B95, 0x0BCD, 0x0B95, 0x0BC1, 0x0BA4, 0x0BBE, 0x0BA9, 0x0BCD]"

text \<open>The same machine with a training step that raises.\<close>

definition untrained :: env where
  "untrained = offline\<lparr>sklearn_fit := Inl (Exception (lit ''fit failed''))\<rparr>"

text \<open>The analyzers that \<^verbatim>\<open>TamilTextAnalyzer()\<close> builds on two of these machines.\<close>

definition built :: "env \<Rightarrow> analyzer" where
  "built ev = (case TamilTextAnalyzer_init ev of Inl e \<Rightarrow> \<lparr>models = []\<rparr> | Inr self \<Rightarrow> self)"

definition offline_analyzer :: analyzer where
  "offline_analyzer = built offline"

definition failing_analyzer :: analyzer where
  "failing_analyzer = built failing"

section \<open>Unfolding the literals\<close>

lemmas tamil_defs =
  ta_naan_def ta_nii_def ta_naangal_def ta_niingal_def ta_aasiriyar_def
  ta_avar_def ta_kiraarkal_def ta_kiraar_def ta_kiradhu_def ta_kiraan_def
  ta_kiraal_def ta_kireen_def ta_kiroom_def ta_kiriirkal_def ta_sal_def
  ta_sel_def ta_badhil_def ta_badhivu_def ta_enga_def ta_engee_def
  ta_kku_def ta_yil_def ta_udan_def ta_palli_def ta_pallikku_def
  ta_selkireen_def ta_selkiraan_def ta_selkiraal_def ta_selkiradhu_def ta_padikkiroom_def
  ta_paadal_def ta_paadukireen_def ta_nalla_def ta_paadangalai_def ta_katruk_def
  ta_kodukkiraar_def

section \<open>The loop computes one entry per model\<close>

lemma lit_eq_iff: "lit a = lit b \<longleftrightarrow> a = b"
  by (simp add: lit_def inj_map_eq_map inj_on_def)

lemma setitem_fresh: "k \<notin> set (keys d) \<Longrightarrow> setitem d k v = d @ [(k, v)]"
  by (induction d) (auto simp: keys_def)

lemma setitem_last: "k \<notin> set (keys d) \<Longrightarrow> setitem (d @ [(k, v)]) k v' = d @ [(k, v')]"
  by (induction d) (auto simp: keys_def)

lemma step_fresh:
  assumes "model_name \<notin> set (keys results)" and "model_name \<notin> set (keys corrections)"
  shows "step text cs cg model_name model (results, corrections) =
           (results @ [(model_name, entry text cs cg model)],
            corrections @ (case correction text model of None \<Rightarrow> [] | Some c \<Rightarrow> [(model_name, c)]))"
  using assms
  by (auto simp: step_def try_block_def except_block_def entry_def correction_def raises_def
        setitem_fresh setitem_last Let_def split: sum.splits)

lemma analyze_loop_step:
  "analyze_loop text cs cg ((model_name, model) # rest) st =
     analyze_loop text cs cg rest (step text cs cg model_name model st)"
  by (simp add: step_def split: sum.splits prod.splits)

lemma keys_corrections_of: "set (keys (corrections_of text ms)) \<subseteq> set (keys ms)"
proof (induction ms)
  case Nil
  then show ?case by (simp add: corrections_of_def keys_def)
next
  case (Cons p ms)
  obtain model_name model where p: "p = (model_name, model)" by (cases p)
  have "corrections_of text (p # ms) =
          (case correction text model of None \<Rightarrow> [] | Some c \<Rightarrow> [(model_name, c)]) @
          corrections_of text ms"
    by (simp add: corrections_of_def p)
  then show ?case using Cons.IH
    by (auto simp: keys_def p split: option.splits)
qed

lemma analyze_loop_fresh:
  "distinct (keys ms) \<Longrightarrow> set (keys ms) \<inter> set (keys results) = {} \<Longrightarrow>
   set (keys ms) \<inter> set (keys corrections) = {} \<Longrightarrow>
   analyze_loop text cs cg ms (results, corrections) =
     Inr (results @ map (\<lambda>(model_name, model). (model_name, entry text cs cg model)) ms,
          corrections @ corrections_of text ms)"
proof (induction ms arbitrary: results corrections)
  case Nil
  then show ?case by (simp add: corrections_of_def)
next
  case (Cons p ms)
  obtain model_name model where p: "p = (model_name, model)" by (cases p)
  define c1 where "c1 = (case correction text model of None \<Rightarrow> [] | Some c \<Rightarrow> [(model_name, c)])"
  have fresh: "model_name \<notin> set (keys results)" "model_name \<notin> set (keys corrections)"
    using Cons.prems by (auto simp: p keys_def)
  have d: "distinct (keys ms)" and nm: "model_name \<notin> set (keys ms)"
    using Cons.prems by (auto simp: p keys_def)
  have r: "set (keys ms) \<inter> set (keys (results @ [(model_name, entry text cs cg model)])) = {}"
    using Cons.prems nm by (auto simp: p keys_def)
  have "set (keys c1) \<subseteq> {model_name}"
    by (auto simp: c1_def keys_def split: option.splits)
  then have c: "set (keys ms) \<inter> set (keys (corrections @ c1)) = {}"
    using Cons.prems nm by (auto simp: p keys_def)
  have "analyze_loop text cs cg (p # ms) (results, corrections) =
          analyze_loop text cs cg ms
            (results @ [(model_name, entry text cs cg model)], corrections @ c1)"
    by (simp only: p analyze_loop_step step_fresh [OF fresh] c1_def)
  also have "\<dots> = Inr ((results @ [(model_name, entry text cs cg model)]) @
                       map (\<lambda>(model_name, model). (model_name, entry text cs cg model)) ms,
                     (corrections @ c1) @ corrections_of text ms)"
    by (rule Cons.IH [OF d r c])
  finally show ?case
    by (simp add: corrections_of_def p c1_def)
qed

lemma analyze_text_eq:
  "distinct (keys (models self)) \<Longrightarrow>
   analyze_text self text cs cg =
     Inr (map (\<lambda>(model_name, model). (model_name, entry text cs cg model)) (models self),
          corrections_of text (models self))"
  using analyze_loop_fresh [of "models self" "[]" "[]" "text" cs cg]
  by (simp add: analyze_text_def keys_def)


lemma getitem_entries:
  "distinct (keys ms) \<Longrightarrow> (n, m) \<in> set ms \<Longrightarrow>
   getitem (map (\<lambda>(model_name, model). (model_name, f model)) ms) n = Some (f m)"
proof (induction ms)
  case Nil then show ?case by simp
next
  case (Cons p ms)
  then show ?case
    by (cases p) (auto simp: getitem_def keys_def rev_image_eqI)
qed

lemma keys_entries: "keys (map (\<lambda>(model_name, model). (model_name, f model)) ms) = keys ms"
  by (induction ms) (auto simp: keys_def)

lemma getitem_corrections_of:
  "distinct (keys ms) \<Longrightarrow> (n, m) \<in> set ms \<Longrightarrow>
   getitem (corrections_of text ms) n = correction text m"
proof (induction ms)
  case Nil then show ?case by simp
next
  case (Cons p ms)
  obtain n' m' where p: "p = (n', m')" by (cases p)
  have split: "corrections_of text (p # ms) =
          (case correction text m' of None \<Rightarrow> [] | Some c \<Rightarrow> [(n', c)]) @ corrections_of text ms"
    by (simp add: corrections_of_def p)
  show ?case
  proof (cases "n = n'")
    case True
    then have "m = m'" and "n' \<notin> set (keys ms)"
      using Cons.prems by (auto simp: p keys_def rev_image_eqI)
    then have "n' \<notin> set (keys (corrections_of text ms))"
      using keys_corrections_of [of "text" ms] by auto
    then have "map_of (corrections_of text ms) n' = None"
      by (simp add: keys_def map_of_eq_None_iff)
    then show ?thesis
      using True \<open>m = m'\<close> by (simp add: split getitem_def split: option.splits)
  next
    case False
    then have "(n, m) \<in> set ms" and "distinct (keys ms)"
      using Cons.prems by (auto simp: p keys_def)
    then have "getitem (corrections_of text ms) n = correction text m"
      by (rule Cons.IH [rotated])
    then show ?thesis
      using False by (simp add: split getitem_def split: option.splits)
  qed
qed

lemma sample_distinct: "distinct (keys (models sample_analyzer))"
  by (simp add: sample_analyzer_def keys_def lit_eq_iff)


lemma raises_None_check:
  "raises model text = None \<Longrightarrow> \<exists>errors. check_text model text = Inr errors"
  by (auto simp: raises_def split: sum.splits)

lemma entry_ok:
  "raises model text = None \<Longrightarrow> check_text model text = Inr errors \<Longrightarrow>
   entry text cs cg model = filter (keep cs cg) errors"
  by (simp add: entry_def)

lemma entry_raises:
  "raises model text = Some e \<Longrightarrow> entry text cs cg model = error_entry e text"
  by (simp add: entry_def)

lemma sample_raises:
  "raises raising_checker t = Some (Exception (lit ''model crashed''))"
  "raises plain_checker t = None"
  "raises correcting_checker t = None"
  "raises miscorrecting_checker t = Some (Exception (lit ''no suggestions''))"
  by (simp_all add: raises_def raising_checker_def plain_checker_def correcting_checker_def
        miscorrecting_checker_def hasattr_def)


lemma error_data_Cons:
  "error_data ((model_name, errors) # results) =
     map (\<lambda>error_type. \<lparr>Model = model_name, Error_Type = error_type, Count = 1\<rparr>)
       (error_types errors) @ error_data results"
  by (simp add: error_data_def)

lemma count_error_types:
  "length (filter (\<lambda>t. t = category) (error_types errors)) =
     (if category = lit ''error'' then 0
      else length (filter (\<lambda>error. fst error = category) errors))"
  by (induction errors) (auto simp: error_types_def)

lemma length_error_types:
  "length (error_types errors) = length (filter (\<lambda>error. fst error \<noteq> lit ''error'') errors)"
  by (simp add: error_types_def)

lemma rows_count:
  "length (filter (\<lambda>row. Model row = name \<and> Error_Type row = category)
             (map (\<lambda>error_type. \<lparr>Model = model_name, Error_Type = error_type, Count = 1\<rparr>) ts)) =
     (if model_name = name then length (filter (\<lambda>t. t = category) ts) else 0)"
  by (induction ts) auto

lemma tally_per_model:
  "length (filter (\<lambda>row. Model row = name \<and> Error_Type row = category) (error_data results)) =
     (if category = lit ''error'' then 0
      else sum_list (map (\<lambda>(model_name, errors).
                            if model_name = name
                            then length (filter (\<lambda>error. fst error = category) errors)
                            else 0) results))"
proof (induction results)
  case Nil
  then show ?case by (simp add: error_data_def)
next
  case (Cons p results)
  obtain model_name errors where p: "p = (model_name, errors)" by (cases p)
  show ?case
    unfolding p error_data_Cons filter_append length_append rows_count count_error_types Cons.IH
    by simp
qed

lemma tally_total:
  "length (error_data results) =
     sum_list (map (\<lambda>(model_name, errors).
                      length (filter (\<lambda>error. fst error \<noteq> lit ''error'') errors)) results)"
proof (induction results)
  case Nil
  then show ?case by (simp add: error_data_def)
next
  case (Cons p results)
  obtain model_name errors where p: "p = (model_name, errors)" by (cases p)
  show ?case
    unfolding p error_data_Cons length_append length_map length_error_types Cons.IH
    by simp
qed

lemma tally_counts_one: "list_all (\<lambda>row. Count row = 1) (error_data results)"
  by (induction results) (auto simp: error_data_def list_all_iff)


lemma raises_check_text: "check_text model text = Inl e \<Longrightarrow> raises model text = Some e"
  by (simp add: raises_def)

lemma raises_correct_spelling:
  "check_text model text = Inr errors \<Longrightarrow> hasattr model ''correct_spelling'' \<Longrightarrow>
   correct_spelling model text = Inl e \<Longrightarrow> raises model text = Some e"
  by (simp add: raises_def)

lemma correction_raises: "raises model text = Some e \<Longrightarrow> correction text model = None"
  by (auto simp: raises_def correction_def split: sum.splits if_splits)

lemma miscorrecting_distinct: "distinct (keys (models miscorrecting_analyzer))"
  by (simp add: miscorrecting_analyzer_def keys_def lit_eq_iff)

lemma sample_filtered:
  "filter (keep True True) (sample_records t) =
     [(lit ''spelling'', lit ''unknown word'', t),
      (lit ''grammar'', lit ''agreement'', t),
      (lit ''spelling'', lit ''unknown word'', t)]"
  by (simp add: sample_records_def keep_def lit_eq_iff)


section \<open>The three checkers and the registry\<close>

lemma strip_grammar_error_text: "strip grammar_error_text = grammar_error_text"
  by (simp add: strip_def grammar_error_text_def isspace_def)

lemma split_grammar_error_text: "split_on sentence_end grammar_error_text = [grammar_error_text]"
  by (simp add: grammar_error_text_def sentence_end_def)

lemma sentences_grammar_error_text:
  "RuleBasedChecker_split_sentences grammar_error_text = [grammar_error_text]"
  by (simp add: RuleBasedChecker_split_sentences_def split_grammar_error_text
        strip_grammar_error_text) (simp add: grammar_error_text_def)

lemma grammar_of_grammar_error_text:
  "RuleBasedChecker_check_grammar ev grammar_error_text =
     [(lit ''grammar'', lit ''First person with neuter verb'', grammar_error_text)]"
  unfolding RuleBasedChecker_check_grammar_def sentences_grammar_error_text
  by (simp add: subject_verb_agreement_def re_lit_def tamil_defs grammar_error_text_def)


lemma init_models:
  assumes "TamilTextAnalyzer_init ev = Inr self"
  shows "\<exists>rule_based deep_learning statistical.
           RuleBasedChecker_init ev = Inr rule_based \<and>
           DeepLearningChecker_init ev = Inr deep_learning \<and>
           StatisticalChecker_init ev = Inr statistical \<and>
           models self =
             [(lit ''Rule-based'', RuleBasedChecker_object ev rule_based),
              (lit ''Deep Learning'', DeepLearningChecker_object ev deep_learning),
              (lit ''Statistical'', StatisticalChecker_object ev statistical)]"
  using assms
  by (auto simp: TamilTextAnalyzer_init_def split: sum.splits)

lemma registry_names:
  "TamilTextAnalyzer_init ev = Inr self \<Longrightarrow>
   keys (models self) = [lit ''Rule-based'', lit ''Deep Learning'', lit ''Statistical'']"
  by (auto dest!: init_models simp: keys_def)

lemma registry_distinct:
  "TamilTextAnalyzer_init ev = Inr self \<Longrightarrow> distinct (keys (models self))"
  by (simp add: registry_names lit_eq_iff)

lemma no_correct_spelling:
  "\<not> hasattr (RuleBasedChecker_object ev rb) ''correct_spelling''"
  "\<not> hasattr (DeepLearningChecker_object ev dl) ''correct_spelling''"
  "\<not> hasattr (StatisticalChecker_object ev st) ''correct_spelling''"
  by (simp_all add: hasattr_def RuleBasedChecker_object_def DeepLearningChecker_object_def
        StatisticalChecker_object_def)

lemma correction_no_attr:
  "\<not> hasattr model ''correct_spelling'' \<Longrightarrow> correction text model = None"
  by (simp add: correction_def split: sum.splits)

lemma offline_init: "TamilTextAnalyzer_init offline = Inr offline_analyzer"
  by (simp add: offline_analyzer_def built_def TamilTextAnalyzer_init_def RuleBasedChecker_init_def
        RuleBasedChecker_load_tamil_dictionary_def DeepLearningChecker_init_def
        StatisticalChecker_init_def offline_def)


lemma RuleBasedChecker_init_cases:
  "RuleBasedChecker_init ev =
     (case dictionary_file ev of
        FileNotFoundError \<Rightarrow> Inr \<lparr>tamil_words = basic_dictionary\<rparr>
      | OtherError e \<Rightarrow> Inl e
      | Lines ls \<Rightarrow> Inr \<lparr>tamil_words = load_lines basic_dictionary ls\<rparr>)"
  by (simp add: RuleBasedChecker_init_def RuleBasedChecker_load_tamil_dictionary_def
        split: file_result.splits)


text \<open>The definitions that evaluating a checker on a concrete text unfolds.\<close>

lemmas runtime_defs = strip_def isspace_def sentence_end_def re_lit_def re_match_def
  re_finditer_def lit_def

lemmas table_defs = subject_verb_agreement_def spelling_patterns_def word_spacing_def
  basic_dictionary_def tamil_patterns_def common_errors_def context_rules_def tamil_defs

lemmas rule_based_defs = RuleBasedChecker_check_text_def RuleBasedChecker_body_def
  RuleBasedChecker_check_spelling_def RuleBasedChecker_check_grammar_def
  RuleBasedChecker_check_word_def RuleBasedChecker_split_sentences_def keys_def

lemmas deep_learning_defs = DeepLearningChecker_check_text_def DeepLearningChecker_body_def
  DeepLearningChecker_check_patterns_def DeepLearningChecker_split_sentences_def
  DeepLearningChecker_assess_word_probability_def unusual_words_def pattern_error_def

lemmas statistical_defs = StatisticalChecker_check_text_def StatisticalChecker_body_def
  StatisticalChecker_analyze_patterns_def confidence_check_def first_row_def np_index_def
  float_0_8_def

lemmas sample_defs = offline_def failing_def one_class_def tamil_isalnum_def tamil_isdigit_def
  crashing_def unakkuthaan_def grammar_error_text_def


lemma RuleBasedChecker_returns:
  "\<exists>errors. RuleBasedChecker_check_text ev self text = Inr errors"
  by (simp add: RuleBasedChecker_check_text_def split: sum.splits)

lemma DeepLearningChecker_returns:
  "DeepLearningChecker_check_text ev self text =
     Inr (concat (map (\<lambda>sentence.
                         DeepLearningChecker_check_patterns ev sentence @
                         unusual_words ev self sentence)
                      (DeepLearningChecker_split_sentences text)))"
  by (simp add: DeepLearningChecker_check_text_def DeepLearningChecker_body_def)

lemma StatisticalChecker_returns:
  "\<exists>errors. StatisticalChecker_check_text ev self text = Inr errors"
  by (simp add: StatisticalChecker_check_text_def split: sum.splits)

lemma unusual_words_absent:
  "tokenizer_model self = None \<Longrightarrow> unusual_words ev self sentence = []"
  by (simp add: unusual_words_def DeepLearningChecker_assess_word_probability_def)

lemma unusual_words_raising:
  "tokenizer_model self = Some m \<Longrightarrow> m sentence = Inl e \<Longrightarrow> unusual_words ev self sentence = []"
  by (simp add: unusual_words_def DeepLearningChecker_assess_word_probability_def)


lemma analyze_loop_returns:
  "\<exists>results corrections. analyze_loop text cs cg ms st = Inr (results, corrections)"
proof (induction ms arbitrary: st)
  case Nil
  then show ?case by (cases st) simp
next
  case (Cons p ms)
  obtain model_name model where p: "p = (model_name, model)" by (cases p)
  show ?case
    unfolding p analyze_loop_step by (rule Cons.IH)
qed

lemma DeepLearningChecker_empty: "DeepLearningChecker_check_text ev self [] = Inr []"
  by (simp add: DeepLearningChecker_returns DeepLearningChecker_split_sentences_def strip_def)

lemma confidence_check_context:
  "confidence_check ev what pred text = Inr errors \<Longrightarrow> r \<in> set errors \<Longrightarrow> rec_context r = text"
  by (auto simp: confidence_check_def rec_context_def split: sum.splits if_splits)

lemma analyze_patterns_context:
  "r \<in> set (StatisticalChecker_analyze_patterns ev text) \<Longrightarrow> rec_context r = text"
  by (auto simp: StatisticalChecker_analyze_patterns_def rec_context_def)

lemma StatisticalChecker_context:
  assumes "StatisticalChecker_check_text ev self text = Inr errors" and "r \<in> set errors"
  shows "rec_context r = text"
proof (cases "StatisticalChecker_body ev self text")
  case (Inl e)
  then show ?thesis
    using assms by (auto simp: StatisticalChecker_check_text_def rec_context_def)
next
  case (Inr es)
  then have es: "es = errors"
    using assms(1) by (simp add: StatisticalChecker_check_text_def)
  from Inr obtain features spelling_pred grammar_pred errors1 errors2 where
    c1: "confidence_check ev (lit ''spelling'') spelling_pred text = Inr errors1" and
    c2: "confidence_check ev (lit ''grammar'') grammar_pred text = Inr errors2" and
    e: "es = errors1 @ errors2 @ StatisticalChecker_analyze_patterns ev text"
    by (auto simp: StatisticalChecker_body_def split: sum.splits)
  have "r \<in> set errors1 \<or> r \<in> set errors2 \<or>
        r \<in> set (StatisticalChecker_analyze_patterns ev text)"
    using assms(2) unfolding es [symmetric] e by simp
  then show ?thesis
    using confidence_check_context [OF c1] confidence_check_context [OF c2]
      analyze_patterns_context by blast
qed

lemma all_errors_or_empty: "(if xs \<noteq> [] then xs else []) = xs"
  by simp

lemma check_grammar_empty: "RuleBasedChecker_check_grammar ev [] = []"
  by (simp add: RuleBasedChecker_check_grammar_def RuleBasedChecker_split_sentences_def strip_def)

lemma check_word_context:
  "r \<in> set (RuleBasedChecker_check_word ev self word) \<Longrightarrow> rec_context r = word"
  by (auto simp: RuleBasedChecker_check_word_def rec_context_def split: if_splits)

lemma RuleBasedChecker_empty:
  assumes "RuleBasedChecker_check_text ev self [] = Inr errors" and "r \<in> set errors"
  shows "rec_context r = [] \<or>
         (\<exists>words. trivial_tokenize ev [] = Inr words \<and> rec_context r \<in> set words)"
proof (cases "trivial_tokenize ev []")
  case (Inl e)
  then show ?thesis
    using assms
    by (auto simp: RuleBasedChecker_check_text_def RuleBasedChecker_body_def
          RuleBasedChecker_check_spelling_def rec_context_def)
next
  case (Inr words)
  then have "errors = concat (map (RuleBasedChecker_check_word ev self) words)"
    using assms(1)
    by (simp only: RuleBasedChecker_check_text_def RuleBasedChecker_body_def
          RuleBasedChecker_check_spelling_def check_grammar_empty Let_def all_errors_or_empty
          sum.case append_Nil2 sum.inject)
  then obtain word where "word \<in> set words" "r \<in> set (RuleBasedChecker_check_word ev self word)"
    using assms(2) by auto
  then show ?thesis
    using Inr check_word_context by blast
qed

lemma entry_no_attr:
  "\<not> hasattr model ''correct_spelling'' \<Longrightarrow> check_text model text = Inr errors \<Longrightarrow>
   entry text cs cg model = filter (keep cs cg) errors"
  by (simp add: entry_def raises_def)

lemma offline_fields:
  "dictionary_file offline = FileNotFoundError"
  "from_pretrained offline = Inl (Exception (lit ''no network''))"
  "sklearn_fit offline = Inr one_class"
  by (simp_all add: offline_def)

lemma failing_fields:
  "dictionary_file failing = FileNotFoundError"
  "from_pretrained failing = Inl (Exception (lit ''no network''))"
  "sklearn_fit failing =
     Inr (one_class\<lparr>transform := (\<lambda>text. Inl (Exception (lit ''not fitted'')))\<rparr>)"
  "trivial_tokenize failing = (\<lambda>text. Inl (Exception (lit ''tokenizer failed'')))"
  by (simp_all add: failing_def offline_def)

lemma offline_built:
  "TamilTextAnalyzer_init offline =
     Inr \<lparr>models =
       [(lit ''Rule-based'', RuleBasedChecker_object offline \<lparr>tamil_words = basic_dictionary\<rparr>),
        (lit ''Deep Learning'', DeepLearningChecker_object offline \<lparr>tokenizer_model = None\<rparr>),
        (lit ''Statistical'', StatisticalChecker_object offline \<lparr>trained = one_class\<rparr>)]\<rparr>"
  by (simp add: TamilTextAnalyzer_init_def RuleBasedChecker_init_cases
        DeepLearningChecker_init_def DeepLearningChecker_initialize_model_def
        StatisticalChecker_init_def offline_fields)

lemma offline_models:
  "models offline_analyzer =
     [(lit ''Rule-based'', RuleBasedChecker_object offline \<lparr>tamil_words = basic_dictionary\<rparr>),
      (lit ''Deep Learning'', DeepLearningChecker_object offline \<lparr>tokenizer_model = None\<rparr>),
      (lit ''Statistical'', StatisticalChecker_object offline \<lparr>trained = one_class\<rparr>)]"
  by (simp add: offline_analyzer_def built_def offline_built)

lemma failing_built:
  "TamilTextAnalyzer_init failing =
     Inr \<lparr>models =
       [(lit ''Rule-based'', RuleBasedChecker_object failing \<lparr>tamil_words = basic_dictionary\<rparr>),
        (lit ''Deep Learning'', DeepLearningChecker_object failing \<lparr>tokenizer_model = None\<rparr>),
        (lit ''Statistical'',
         StatisticalChecker_object failing
           \<lparr>trained = one_class\<lparr>transform :=
              (\<lambda>text. Inl (Exception (lit ''not fitted'')))\<rparr>\<rparr>)]\<rparr>"
  by (simp add: TamilTextAnalyzer_init_def RuleBasedChecker_init_cases
        DeepLearningChecker_init_def DeepLearningChecker_initialize_model_def
        StatisticalChecker_init_def failing_fields)

lemma failing_init: "TamilTextAnalyzer_init failing = Inr failing_analyzer"
  by (simp add: failing_analyzer_def built_def failing_built)

lemma failing_models:
  "models failing_analyzer =
     [(lit ''Rule-based'', RuleBasedChecker_object failing \<lparr>tamil_words = basic_dictionary\<rparr>),
      (lit ''Deep Learning'', DeepLearningChecker_object failing \<lparr>tokenizer_model = None\<rparr>),
      (lit ''Statistical'',
       StatisticalChecker_object failing
         \<lparr>trained = one_class\<lparr>transform := (\<lambda>text. Inl (Exception (lit ''not fitted'')))\<rparr>\<rparr>)]"
  by (simp add: failing_analyzer_def built_def failing_built)

lemma offline_unakkuthaan:
  "RuleBasedChecker_check_text offline \<lparr>tamil_words = basic_dictionary\<rparr> unakkuthaan =
     Inr [(lit ''spelling'', lit ''Unknown word: '' @ unakkuthaan, unakkuthaan),
          (lit ''spelling'', lit ''Missing space before '' @ ta_kku, unakkuthaan)]"
  "DeepLearningChecker_check_text offline \<lparr>tokenizer_model = None\<rparr> unakkuthaan =
     Inr [(lit ''format'', lit ''Add space before '' @ ta_kku, unakkuthaan)]"
  "StatisticalChecker_check_text offline \<lparr>trained = one_class\<rparr> unakkuthaan = Inr []"
  by (simp_all add: rule_based_defs deep_learning_defs statistical_defs runtime_defs table_defs
        sample_defs)

lemma failing_grammar_error_text:
  "RuleBasedChecker_check_text failing \<lparr>tamil_words = basic_dictionary\<rparr> grammar_error_text =
     Inr [(lit ''error'', lit ''Error in text analysis: tokenizer failed'', grammar_error_text)]"
  "DeepLearningChecker_check_text failing \<lparr>tokenizer_model = None\<rparr> grammar_error_text =
     Inr [(lit ''grammar'', lit ''First person with neuter verb - use '' @ ta_kireen @
             lit '' instead'', grammar_error_text)]"
  "StatisticalChecker_check_text failing
     \<lparr>trained = one_class\<lparr>transform := (\<lambda>text. Inl (Exception (lit ''not fitted'')))\<rparr>\<rparr>
     grammar_error_text =
     Inr [(lit ''error'', lit ''Error during analysis: not fitted'', grammar_error_text)]"
  by (simp_all add: rule_based_defs deep_learning_defs statistical_defs runtime_defs table_defs
        sample_defs)

lemma object_check_text:
  "check_text (RuleBasedChecker_object ev rb) = RuleBasedChecker_check_text ev rb"
  "check_text (DeepLearningChecker_object ev dl) = DeepLearningChecker_check_text ev dl"
  "check_text (StatisticalChecker_object ev st) = StatisticalChecker_check_text ev st"
  by (simp_all add: RuleBasedChecker_object_def DeepLearningChecker_object_def
        StatisticalChecker_object_def)

lemma keep_cases:
  "keep cs cg (lit ''spelling'', m, c) = cs"
  "keep cs cg (lit ''grammar'', m, c) = cg"
  "keep cs cg (lit ''statistical'', m, c) = cg"
  "keep cs cg (lit ''error'', m, c) = False"
  "keep cs cg (lit ''format'', m, c) = False"
  "keep cs cg (lit ''info'', m, c) = False"
  by (simp_all add: keep_def lit_eq_iff)

section \<open>Properties\<close>

text \<open>
  C1 on the code. The filter of \<^verbatim>\<open>analyze_text\<close> keeps a record of category
  \<^verbatim>\<open>spelling\<close> under \<^verbatim>\<open>check_spelling\<close> and one of category \<^verbatim>\<open>grammar\<close> or
  \<^verbatim>\<open>statistical\<close> under \<^verbatim>\<open>check_grammar\<close>, and it drops every record of another
  category, which the claim says is never suppressed. Two runs of the built analyzer
  show it. On the word \<open>unakkuthaan\<close> the deep-learning checker emits a record of
  category \<^verbatim>\<open>format\<close>, and with both flags set its entry in the results is empty. On
  \<open>grammar_error_text\<close> with a tokenizer that raises, the rule-based checker's own
  handler emits a record of category \<^verbatim>\<open>error\<close>, and its entry in the results is
  empty.
\<close>

theorem C1_other_categories_dropped:
  "TamilTextAnalyzer_init offline = Inr offline_analyzer \<and>
   getitem (models offline_analyzer) (lit ''Deep Learning'') =
     Some (DeepLearningChecker_object offline \<lparr>tokenizer_model = None\<rparr>) \<and>
   check_text (DeepLearningChecker_object offline \<lparr>tokenizer_model = None\<rparr>) unakkuthaan =
     Inr [(lit ''format'', lit ''Add space before '' @ ta_kku, unakkuthaan)] \<and>
   analyze_text offline_analyzer unakkuthaan True True =
     Inr ([(lit ''Rule-based'',
            [(lit ''spelling'', lit ''Unknown word: '' @ unakkuthaan, unakkuthaan),
             (lit ''spelling'', lit ''Missing space before '' @ ta_kku, unakkuthaan)]),
           (lit ''Deep Learning'', []),
           (lit ''Statistical'', [])],
          []) \<and>
   TamilTextAnalyzer_init failing = Inr failing_analyzer \<and>
   getitem (models failing_analyzer) (lit ''Rule-based'') =
     Some (RuleBasedChecker_object failing \<lparr>tamil_words = basic_dictionary\<rparr>) \<and>
   check_text (RuleBasedChecker_object failing \<lparr>tamil_words = basic_dictionary\<rparr>)
       grammar_error_text =
     Inr [(lit ''error'', lit ''Error in text analysis: tokenizer failed'', grammar_error_text)] \<and>
   analyze_text failing_analyzer grammar_error_text False False =
     Inr ([(lit ''Rule-based'', []), (lit ''Deep Learning'', []), (lit ''Statistical'', [])], [])"
proof -
  have o: "analyze_text offline_analyzer unakkuthaan True True =
     Inr ([(lit ''Rule-based'',
            [(lit ''spelling'', lit ''Unknown word: '' @ unakkuthaan, unakkuthaan),
             (lit ''spelling'', lit ''Missing space before '' @ ta_kku, unakkuthaan)]),
           (lit ''Deep Learning'', []),
           (lit ''Statistical'', [])],
          [])"
    unfolding analyze_text_eq [OF registry_distinct [OF offline_init]] offline_models
    by (simp add: entry_no_attr no_correct_spelling object_check_text offline_unakkuthaan
          keep_cases corrections_of_def correction_no_attr)
  have f: "analyze_text failing_analyzer grammar_error_text False False =
     Inr ([(lit ''Rule-based'', []), (lit ''Deep Learning'', []), (lit ''Statistical'', [])], [])"
    unfolding analyze_text_eq [OF registry_distinct [OF failing_init]] failing_models
    by (simp add: entry_no_attr no_correct_spelling object_check_text failing_grammar_error_text
          keep_cases corrections_of_def correction_no_attr)
  show ?thesis
    using o f offline_init failing_init
    by (simp add: offline_models failing_models getitem_def lit_eq_iff object_check_text
          offline_unakkuthaan failing_grammar_error_text)
qed

text \<open>
  C2. \<^verbatim>\<open>analyze_text\<close> returns for every analyzer, every text (the empty one
  included) and both flags: no exception leaves it. For an analyzer built by
  \<^verbatim>\<open>TamilTextAnalyzer()\<close> the results mapping has one entry for each of the three
  registered checkers. On the empty text no \<^verbatim>\<open>check_text\<close> of the three raises; the
  deep-learning checker returns the empty list, and every record the other two return
  is about the empty input: its context is the empty text or, for the spelling records
  of the rule-based checker, one of the tokens the tokenizer made of it.
\<close>

theorem C2_always_returns:
  "(\<exists>results corrections.
      analyze_text any_analyzer text check_spelling check_grammar = Inr (results, corrections)) \<and>
   (TamilTextAnalyzer_init ev = Inr self \<longrightarrow>
      (\<exists>results corrections.
         analyze_text self text check_spelling check_grammar = Inr (results, corrections) \<and>
         keys results = [lit ''Rule-based'', lit ''Deep Learning'', lit ''Statistical'']) \<and>
      (\<forall>(model_name, model) \<in> set (models self).
         \<exists>errors. check_text model [] = Inr errors \<and>
           (\<forall>r \<in> set errors.
              rec_context r = [] \<or>
              (\<exists>words. trivial_tokenize ev [] = Inr words \<and> rec_context r \<in> set words))) \<and>
      (\<exists>deep_learning.
         getitem (models self) (lit ''Deep Learning'') = Some deep_learning \<and>
         check_text deep_learning [] = Inr []))"
proof -
  have any: "\<exists>results corrections.
      analyze_text any_analyzer text check_spelling check_grammar = Inr (results, corrections)"
    unfolding analyze_text_def by (rule analyze_loop_returns)
  have built: "(\<exists>results corrections.
         analyze_text self text check_spelling check_grammar = Inr (results, corrections) \<and>
         keys results = [lit ''Rule-based'', lit ''Deep Learning'', lit ''Statistical'']) \<and>
      (\<forall>(model_name, model) \<in> set (models self).
         \<exists>errors. check_text model [] = Inr errors \<and>
           (\<forall>r \<in> set errors.
              rec_context r = [] \<or>
              (\<exists>words. trivial_tokenize ev [] = Inr words \<and> rec_context r \<in> set words))) \<and>
      (\<exists>deep_learning.
         getitem (models self) (lit ''Deep Learning'') = Some deep_learning \<and>
         check_text deep_learning [] = Inr [])"
    if init: "TamilTextAnalyzer_init ev = Inr self"
  proof -
    obtain rb dl st where m:
      "models self =
         [(lit ''Rule-based'', RuleBasedChecker_object ev rb),
          (lit ''Deep Learning'', DeepLearningChecker_object ev dl),
          (lit ''Statistical'', StatisticalChecker_object ev st)]"
      using init_models [OF init] by blast
    have 1: "\<exists>results corrections.
         analyze_text self text check_spelling check_grammar = Inr (results, corrections) \<and>
         keys results = [lit ''Rule-based'', lit ''Deep Learning'', lit ''Statistical'']"
      unfolding analyze_text_eq [OF registry_distinct [OF init]]
      by (simp add: keys_entries registry_names [OF init])
    have rb: "\<exists>errors. check_text (RuleBasedChecker_object ev rb) [] = Inr errors \<and>
           (\<forall>r \<in> set errors.
              rec_context r = [] \<or>
              (\<exists>words. trivial_tokenize ev [] = Inr words \<and> rec_context r \<in> set words))"
    proof -
      obtain errors where e: "RuleBasedChecker_check_text ev rb [] = Inr errors"
        using RuleBasedChecker_returns by blast
      have "check_text (RuleBasedChecker_object ev rb) [] = Inr errors"
        by (simp add: RuleBasedChecker_object_def e)
      then show ?thesis
        using RuleBasedChecker_empty [OF e] by blast
    qed
    have dl: "check_text (DeepLearningChecker_object ev dl) [] = Inr []"
      by (simp add: DeepLearningChecker_object_def DeepLearningChecker_empty)
    have st: "\<exists>errors. check_text (StatisticalChecker_object ev st) [] = Inr errors \<and>
           (\<forall>r \<in> set errors. rec_context r = [])"
    proof -
      obtain errors where e: "StatisticalChecker_check_text ev st [] = Inr errors"
        using StatisticalChecker_returns by blast
      have "check_text (StatisticalChecker_object ev st) [] = Inr errors"
        by (simp add: StatisticalChecker_object_def e)
      then show ?thesis
        using StatisticalChecker_context [OF e] by blast
    qed
    have 2: "\<forall>(model_name, model) \<in> set (models self).
         \<exists>errors. check_text model [] = Inr errors \<and>
           (\<forall>r \<in> set errors.
              rec_context r = [] \<or>
              (\<exists>words. trivial_tokenize ev [] = Inr words \<and> rec_context r \<in> set words))"
      unfolding m using rb dl st by auto
    have 3: "\<exists>deep_learning.
         getitem (models self) (lit ''Deep Learning'') = Some deep_learning \<and>
         check_text deep_learning [] = Inr []"
      using dl by (simp add: m getitem_def lit_eq_iff)
    show ?thesis
      using 1 2 3 by blast
  qed
  show ?thesis
    using any built by blast
qed


theorem C2_always_returns_witness:
  "TamilTextAnalyzer_init offline = Inr offline_analyzer \<and>
   (\<exists>results corrections.
      analyze_text offline_analyzer [] True True = Inr (results, corrections) \<and>
      keys results = [lit ''Rule-based'', lit ''Deep Learning'', lit ''Statistical'']) \<and>
   (\<exists>deep_learning.
      getitem (models offline_analyzer) (lit ''Deep Learning'') = Some deep_learning \<and>
      check_text deep_learning [] = Inr [])"
  using offline_init C2_always_returns [of offline_analyzer "[]" True True offline offline_analyzer]
  by blast

text \<open>
  C3. Suppose exactly one checker of the registry, \<open>a\<close>, raises, and it does so in its
  \<^verbatim>\<open>check_text\<close>: every other checker's pass through the loop raises nothing
  (\<open>raises b text = None\<close>: its \<^verbatim>\<open>check_text\<close> returns and, when it has a
  \<^verbatim>\<open>correct_spelling\<close>, that returns too). Then \<^verbatim>\<open>analyze_text\<close> returns, the
  entry of \<open>a\<close> is exactly one record of category \<^verbatim>\<open>error\<close> whose message ends
  with \<^verbatim>\<open>str(e)\<close> and whose context is the input text, and the entry of every other
  checker is the filter of what its \<^verbatim>\<open>check_text\<close> returned.
\<close>

theorem C3_failure_isolation:
  assumes "distinct (keys (models self))"
    and "(a_name, a) \<in> set (models self)"
    and "check_text a text = Inl e"
    and "\<forall>(b_name, b) \<in> set (models self). b_name \<noteq> a_name \<longrightarrow> raises b text = None"
  shows "\<exists>results corrections.
           analyze_text self text check_spelling check_grammar = Inr (results, corrections) \<and>
           getitem results a_name =
             Some [(lit ''error'', lit ''Error processing text: '' @ exn_str e, text)] \<and>
           (\<forall>(b_name, b) \<in> set (models self). b_name \<noteq> a_name \<longrightarrow>
              (\<exists>errors. check_text b text = Inr errors \<and>
                 getitem results b_name =
                   Some (filter (keep check_spelling check_grammar) errors)))"
proof -
  let ?results = "map (\<lambda>(model_name, model).
                    (model_name, entry text check_spelling check_grammar model)) (models self)"
  have a: "getitem ?results a_name =
             Some [(lit ''error'', lit ''Error processing text: '' @ exn_str e, text)]"
    using getitem_entries [OF assms(1) assms(2), of "entry text check_spelling check_grammar"]
      entry_raises [OF raises_check_text [OF assms(3)], of check_spelling check_grammar]
    by (simp add: error_entry_def)
  have b: "\<exists>errors. check_text b text = Inr errors \<and>
             getitem ?results b_name = Some (filter (keep check_spelling check_grammar) errors)"
    if "(b_name, b) \<in> set (models self)" and "b_name \<noteq> a_name" for b_name b
  proof -
    have r: "raises b text = None"
      using assms(4) that by blast
    then obtain errors where c: "check_text b text = Inr errors"
      using raises_None_check by blast
    show ?thesis
      using getitem_entries [OF assms(1) that(1), of "entry text check_spelling check_grammar"]
        entry_ok [OF r c, of check_spelling check_grammar] c
      by simp
  qed
  show ?thesis
    unfolding analyze_text_eq [OF assms(1)] using a b by blast
qed

theorem C3_failure_isolation_witness:
  "distinct (keys (models sample_analyzer)) \<and>
   (lit ''first'', raising_checker) \<in> set (models sample_analyzer) \<and>
   check_text raising_checker (lit ''abc'') = Inl (Exception (lit ''model crashed'')) \<and>
   raises plain_checker (lit ''abc'') = None \<and>
   raises correcting_checker (lit ''abc'') = None \<and>
   (\<exists>results corrections.
      analyze_text sample_analyzer (lit ''abc'') True True = Inr (results, corrections) \<and>
      getitem results (lit ''first'') =
        Some [(lit ''error'', lit ''Error processing text: model crashed'', lit ''abc'')] \<and>
      getitem results (lit ''second'') =
        Some [(lit ''spelling'', lit ''unknown word'', lit ''abc''),
              (lit ''grammar'', lit ''agreement'', lit ''abc''),
              (lit ''spelling'', lit ''unknown word'', lit ''abc'')] \<and>
      getitem results (lit ''third'') =
        Some [(lit ''spelling'', lit ''unknown word'', lit ''abc''),
              (lit ''grammar'', lit ''agreement'', lit ''abc''),
              (lit ''spelling'', lit ''unknown word'', lit ''abc'')])"
proof -
  let ?t = "lit ''abc''"
  have d: "distinct (keys (models sample_analyzer))"
    by (rule sample_distinct)
  have m: "(lit ''first'', raising_checker) \<in> set (models sample_analyzer)"
    by (simp add: sample_analyzer_def)
  have c: "check_text raising_checker ?t = Inl (Exception (lit ''model crashed''))"
    by (simp add: raising_checker_def)
  have o: "\<forall>(b_name, b) \<in> set (models sample_analyzer).
             b_name \<noteq> lit ''first'' \<longrightarrow> raises b ?t = None"
    by (simp add: sample_analyzer_def sample_raises)
  obtain results corrections where
    r: "analyze_text sample_analyzer ?t True True = Inr (results, corrections)" and
    a: "getitem results (lit ''first'') =
          Some [(lit ''error'', lit ''Error processing text: '' @
                   exn_str (Exception (lit ''model crashed'')), ?t)]" and
    b: "\<forall>(b_name, b) \<in> set (models sample_analyzer). b_name \<noteq> lit ''first'' \<longrightarrow>
          (\<exists>errors. check_text b ?t = Inr errors \<and>
             getitem results b_name = Some (filter (keep True True) errors))"
    using C3_failure_isolation [OF d m c o, of True True] by blast
  have 2: "getitem results (lit ''second'') = Some (filter (keep True True) (sample_records ?t))"
    using b by (simp add: sample_analyzer_def lit_eq_iff plain_checker_def)
  have 3: "getitem results (lit ''third'') = Some (filter (keep True True) (sample_records ?t))"
    using b by (simp add: sample_analyzer_def lit_eq_iff correcting_checker_def)
  have a': "getitem results (lit ''first'') =
          Some [(lit ''error'', lit ''Error processing text: model crashed'', ?t)]"
    using a by (simp add: lit_def)
  show ?thesis
    using d m c r a' 2 3 sample_raises(2,3) [of ?t] unfolding sample_filtered by blast
qed

text \<open>
  C4, as the code has it. The \<^verbatim>\<open>check_text\<close> of each of the three checkers returns
  for every text and never raises. In the rule-based and in the statistical checker an
  exception of the body (a failing tokenizer, a failing vectorizer or classifier, an
  index out of range) reaches the method's handler and becomes the single record
  \<^verbatim>\<open>('error', prefix + str(e), text)\<close>. In the deep-learning checker no failure
  reaches the handler: a model that is absent or that raises is dealt with inside
  \<^verbatim>\<open>_assess_word_probability\<close>, which then gives no words, so \<^verbatim>\<open>check_text\<close>
  returns the findings of its patterns and no \<^verbatim>\<open>error\<close> record.
\<close>

theorem C4_check_text_boundaries:
  "(\<exists>errors. RuleBasedChecker_check_text ev rule_based text = Inr errors) \<and>
   (\<exists>errors. DeepLearningChecker_check_text ev deep_learning text = Inr errors) \<and>
   (\<exists>errors. StatisticalChecker_check_text ev statistical text = Inr errors) \<and>
   (RuleBasedChecker_body ev rule_based text = Inl e \<longrightarrow>
      RuleBasedChecker_check_text ev rule_based text =
        Inr [(lit ''error'', lit ''Error in text analysis: '' @ exn_str e, text)]) \<and>
   (trivial_tokenize ev text = Inl e \<longrightarrow> RuleBasedChecker_body ev rule_based text = Inl e) \<and>
   (StatisticalChecker_body ev statistical text = Inl e \<longrightarrow>
      StatisticalChecker_check_text ev statistical text =
        Inr [(lit ''error'', lit ''Error during analysis: '' @ exn_str e, text)]) \<and>
   (transform (trained statistical) text = Inl e \<longrightarrow>
      StatisticalChecker_body ev statistical text = Inl e) \<and>
   DeepLearningChecker_check_text ev deep_learning text =
     Inr (concat (map (\<lambda>sentence.
                         DeepLearningChecker_check_patterns ev sentence @
                         unusual_words ev deep_learning sentence)
                      (DeepLearningChecker_split_sentences text))) \<and>
   (tokenizer_model deep_learning = None \<longrightarrow> unusual_words ev deep_learning sentence = []) \<and>
   (tokenizer_model deep_learning = Some m \<and> m sentence = Inl e \<longrightarrow>
      unusual_words ev deep_learning sentence = [])"
proof -
  have 1: "RuleBasedChecker_check_text ev rule_based text =
             Inr [(lit ''error'', lit ''Error in text analysis: '' @ exn_str e, text)]"
    if "RuleBasedChecker_body ev rule_based text = Inl e"
    using that by (simp add: RuleBasedChecker_check_text_def)
  have 2: "RuleBasedChecker_body ev rule_based text = Inl e"
    if "trivial_tokenize ev text = Inl e"
    using that by (simp add: RuleBasedChecker_body_def RuleBasedChecker_check_spelling_def)
  have 3: "StatisticalChecker_check_text ev statistical text =
             Inr [(lit ''error'', lit ''Error during analysis: '' @ exn_str e, text)]"
    if "StatisticalChecker_body ev statistical text = Inl e"
    using that by (simp add: StatisticalChecker_check_text_def)
  have 4: "StatisticalChecker_body ev statistical text = Inl e"
    if "transform (trained statistical) text = Inl e"
    using that by (simp add: StatisticalChecker_body_def)
  show ?thesis
    using 1 2 3 4 RuleBasedChecker_returns [of ev rule_based "text"]
      StatisticalChecker_returns [of ev statistical "text"]
      DeepLearningChecker_returns [of ev deep_learning "text"]
      unusual_words_absent [of deep_learning ev sentence]
      unusual_words_raising [of deep_learning m sentence e ev]
    by simp
qed

theorem C4_check_text_boundaries_witness:
  "trivial_tokenize failing grammar_error_text = Inl (Exception (lit ''tokenizer failed'')) \<and>
   RuleBasedChecker_body failing \<lparr>tamil_words = basic_dictionary\<rparr> grammar_error_text =
     Inl (Exception (lit ''tokenizer failed'')) \<and>
   RuleBasedChecker_check_text failing \<lparr>tamil_words = basic_dictionary\<rparr> grammar_error_text =
     Inr [(lit ''error'', lit ''Error in text analysis: tokenizer failed'', grammar_error_text)] \<and>
   transform (trained \<lparr>trained = one_class\<lparr>transform :=
       (\<lambda>text. Inl (Exception (lit ''not fitted'')))\<rparr>\<rparr>) grammar_error_text =
     Inl (Exception (lit ''not fitted'')) \<and>
   StatisticalChecker_check_text failing
       \<lparr>trained = one_class\<lparr>transform := (\<lambda>text. Inl (Exception (lit ''not fitted'')))\<rparr>\<rparr>
       grammar_error_text =
     Inr [(lit ''error'', lit ''Error during analysis: not fitted'', grammar_error_text)] \<and>
   tokenizer_model crashing = Some (\<lambda>sentence. Inl (Exception (lit ''out of memory''))) \<and>
   unusual_words failing crashing grammar_error_text = [] \<and>
   unusual_words failing \<lparr>tokenizer_model = None\<rparr> grammar_error_text = [] \<and>
   (\<exists>errors. DeepLearningChecker_check_text failing crashing grammar_error_text = Inr errors)"
proof -
  let ?rb = "\<lparr>tamil_words = basic_dictionary\<rparr>"
  let ?st = "\<lparr>trained = one_class\<lparr>transform := (\<lambda>text. Inl (Exception (lit ''not fitted'')))\<rparr>\<rparr>"
  let ?m = "\<lambda>sentence::pystr. (Inl (Exception (lit ''out of memory'')) :: exn + word_scores)"
  let ?t = grammar_error_text
  have tok: "trivial_tokenize failing ?t = Inl (Exception (lit ''tokenizer failed''))"
    by (simp add: failing_def)
  have tr: "transform (trained ?st) ?t = Inl (Exception (lit ''not fitted''))"
    by simp
  have tm: "tokenizer_model crashing = Some ?m"
    by (simp add: crashing_def)
  note rb = C4_check_text_boundaries
    [of failing ?rb ?t crashing ?st "Exception (lit ''tokenizer failed'')" ?t ?m]
  note st = C4_check_text_boundaries
    [of failing ?rb ?t crashing ?st "Exception (lit ''not fitted'')" ?t ?m]
  note dl = C4_check_text_boundaries
    [of failing ?rb ?t crashing ?st "Exception (lit ''out of memory'')" ?t ?m]
  note no = C4_check_text_boundaries
    [of failing ?rb ?t "\<lparr>tokenizer_model = None\<rparr>" ?st "Exception (lit ''out of memory'')" ?t ?m]
  have 1: "RuleBasedChecker_body failing ?rb ?t = Inl (Exception (lit ''tokenizer failed''))"
    using rb tok by blast
  have 2: "RuleBasedChecker_check_text failing ?rb ?t =
             Inr [(lit ''error'', lit ''Error in text analysis: '' @
                     exn_str (Exception (lit ''tokenizer failed'')), ?t)]"
    using rb 1 by blast
  have 3: "StatisticalChecker_body failing ?st ?t = Inl (Exception (lit ''not fitted''))"
    using st tr by blast
  have 4: "StatisticalChecker_check_text failing ?st ?t =
             Inr [(lit ''error'', lit ''Error during analysis: '' @
                     exn_str (Exception (lit ''not fitted'')), ?t)]"
    using st 3 by blast
  have 5: "unusual_words failing crashing ?t = []"
    using dl tm by blast
  have 6: "unusual_words failing \<lparr>tokenizer_model = None\<rparr> ?t = []"
    using no by simp
  have 7: "\<exists>errors. DeepLearningChecker_check_text failing crashing ?t = Inr errors"
    using dl by blast
  have r2: "RuleBasedChecker_check_text failing ?rb ?t =
             Inr [(lit ''error'', lit ''Error in text analysis: tokenizer failed'', ?t)]"
    using 2 by (simp add: lit_def)
  have s4: "StatisticalChecker_check_text failing ?st ?t =
             Inr [(lit ''error'', lit ''Error during analysis: not fitted'', ?t)]"
    using 4 by (simp add: lit_def)
  show ?thesis
    using tok 1 r2 tr s4 tm 5 6 7 by blast
qed

text \<open>
  C4 as stated fails on the deep-learning checker: with a model that raises on the
  sentence, \<^verbatim>\<open>check_text\<close> returns the empty list, not a record of category
  \<^verbatim>\<open>error\<close>.
\<close>

theorem C4_counterexample:
  "tokenizer_model crashing = Some (\<lambda>sentence. Inl (Exception (lit ''out of memory''))) \<and>
   DeepLearningChecker_split_sentences (lit ''abc'') = [lit ''abc''] \<and>
   DeepLearningChecker_assess_word_probability crashing (lit ''abc'') = [] \<and>
   DeepLearningChecker_check_text offline crashing (lit ''abc'') = Inr []"
  by (simp add: deep_learning_defs runtime_defs table_defs sample_defs)

text \<open>
  C5, as the code has it. When a checker's \<^verbatim>\<open>check_text\<close> returns and its
  \<^verbatim>\<open>correct_spelling\<close> raises, the exception reaches the one handler of the loop:
  \<^verbatim>\<open>analyze_text\<close> still returns with an entry for every checker, but the handler
  overwrites that checker's filtered records with a single \<^verbatim>\<open>error\<close> record, and
  nothing is stored under its name in \<^verbatim>\<open>corrections\<close>.
\<close>

theorem C5_correction_failure:
  assumes "distinct (keys (models self))"
    and "(model_name, model) \<in> set (models self)"
    and "check_text model text = Inr errors"
    and "hasattr model ''correct_spelling''"
    and "correct_spelling model text = Inl e"
  shows "\<exists>results corrections.
           analyze_text self text check_spelling check_grammar = Inr (results, corrections) \<and>
           keys results = keys (models self) \<and>
           getitem results model_name =
             Some [(lit ''error'', lit ''Error processing text: '' @ exn_str e, text)] \<and>
           getitem corrections model_name = None"
proof -
  have r: "raises model text = Some e"
    by (rule raises_correct_spelling [OF assms(3-5)])
  show ?thesis
    unfolding analyze_text_eq [OF assms(1)]
    using getitem_entries [OF assms(1,2), of "entry text check_spelling check_grammar"]
      getitem_corrections_of [OF assms(1,2), of "text"]
      entry_raises [OF r, of check_spelling check_grammar] correction_raises [OF r]
    by (simp add: keys_entries error_entry_def)
qed

theorem C5_correction_failure_witness:
  "distinct (keys (models miscorrecting_analyzer)) \<and>
   (lit ''second'', miscorrecting_checker) \<in> set (models miscorrecting_analyzer) \<and>
   check_text miscorrecting_checker (lit ''abc'') = Inr (sample_records (lit ''abc'')) \<and>
   hasattr miscorrecting_checker ''correct_spelling'' \<and>
   correct_spelling miscorrecting_checker (lit ''abc'') = Inl (Exception (lit ''no suggestions'')) \<and>
   (\<exists>results corrections.
      analyze_text miscorrecting_analyzer (lit ''abc'') False True = Inr (results, corrections) \<and>
      keys results = [lit ''first'', lit ''second''] \<and>
      getitem results (lit ''second'') =
        Some [(lit ''error'', lit ''Error processing text: no suggestions'', lit ''abc'')] \<and>
      getitem corrections (lit ''second'') = None)"
proof -
  let ?t = "lit ''abc''"
  have d: "distinct (keys (models miscorrecting_analyzer))"
    by (rule miscorrecting_distinct)
  have m: "(lit ''second'', miscorrecting_checker) \<in> set (models miscorrecting_analyzer)"
    by (simp add: miscorrecting_analyzer_def)
  have c: "check_text miscorrecting_checker ?t = Inr (sample_records ?t)"
    by (simp add: miscorrecting_checker_def)
  have h: "hasattr miscorrecting_checker ''correct_spelling''"
    by (simp add: miscorrecting_checker_def hasattr_def)
  have f: "correct_spelling miscorrecting_checker ?t = Inl (Exception (lit ''no suggestions''))"
    by (simp add: miscorrecting_checker_def)
  obtain results corrections where
    r: "analyze_text miscorrecting_analyzer ?t False True = Inr (results, corrections)" and
    k: "keys results = keys (models miscorrecting_analyzer)" and
    a: "getitem results (lit ''second'') =
          Some [(lit ''error'', lit ''Error processing text: '' @
                   exn_str (Exception (lit ''no suggestions'')), ?t)]" and
    n: "getitem corrections (lit ''second'') = None"
    using C5_correction_failure [OF d m c h f, of False True] by blast
  have k': "keys results = [lit ''first'', lit ''second'']"
    using k by (simp add: miscorrecting_analyzer_def keys_def)
  have a': "getitem results (lit ''second'') =
          Some [(lit ''error'', lit ''Error processing text: no suggestions'', ?t)]"
    using a by (simp add: lit_def)
  show ?thesis
    using d m c h f r k' a' n by blast
qed

text \<open>
  C5 as stated fails on \<open>miscorrecting_analyzer\<close>: the second checker has a
  \<^verbatim>\<open>correct_spelling\<close> that raises; \<^verbatim>\<open>corrections\<close> comes back empty (no
  explanatory string under its name), and its three filtered records are replaced by
  the handler's record.
\<close>

theorem C5_counterexample:
  "hasattr miscorrecting_checker ''correct_spelling'' \<and>
   correct_spelling miscorrecting_checker (lit ''abc'') = Inl (Exception (lit ''no suggestions'')) \<and>
   check_text miscorrecting_checker (lit ''abc'') =
     Inr [(lit ''spelling'', lit ''unknown word'', lit ''abc''),
          (lit ''info'', lit ''note'', lit ''abc''),
          (lit ''grammar'', lit ''agreement'', lit ''abc''),
          (lit ''spelling'', lit ''unknown word'', lit ''abc'')] \<and>
   analyze_text miscorrecting_analyzer (lit ''abc'') True True =
     Inr ([(lit ''first'',
            [(lit ''spelling'', lit ''unknown word'', lit ''abc''),
             (lit ''grammar'', lit ''agreement'', lit ''abc''),
             (lit ''spelling'', lit ''unknown word'', lit ''abc'')]),
           (lit ''second'',
            [(lit ''error'', lit ''Error processing text: no suggestions'', lit ''abc'')])],
          [])"
  by code_simp

text \<open>
  C6, as the code has it. \<^verbatim>\<open>TamilTextAnalyzer.__init__\<close> has no failure boundary. If
  reading the dictionary file fails with anything but \<^verbatim>\<open>FileNotFoundError\<close>, the
  rule-based constructor raises and the exception leaves \<^verbatim>\<open>__init__\<close>; if the
  training of the statistical checker raises, it leaves \<^verbatim>\<open>__init__\<close> as well. When
  neither happens the analyzer is built with the three checkers in order. The one
  initialization failure that is absorbed is the deep-learning checker's: when the
  model cannot be loaded its constructor still returns, with no model.
\<close>

theorem C6_construction:
  "(dictionary_file ev = OtherError e \<longrightarrow> TamilTextAnalyzer_init ev = Inl e) \<and>
   ((\<forall>e'. dictionary_file ev \<noteq> OtherError e') \<and> sklearn_fit ev = Inl e \<longrightarrow>
      TamilTextAnalyzer_init ev = Inl e) \<and>
   ((\<forall>e'. dictionary_file ev \<noteq> OtherError e') \<and> (\<forall>e'. sklearn_fit ev \<noteq> Inl e') \<longrightarrow>
      (\<exists>self. TamilTextAnalyzer_init ev = Inr self \<and>
         keys (models self) = [lit ''Rule-based'', lit ''Deep Learning'', lit ''Statistical''])) \<and>
   (from_pretrained ev = Inl e \<longrightarrow>
      DeepLearningChecker_init ev = Inr \<lparr>tokenizer_model = None\<rparr>)"
proof -
  have 1: "TamilTextAnalyzer_init ev = Inl e" if "dictionary_file ev = OtherError e"
    using that by (simp add: TamilTextAnalyzer_init_def RuleBasedChecker_init_cases)
  have 2: "TamilTextAnalyzer_init ev = Inl e"
    if "\<forall>e'. dictionary_file ev \<noteq> OtherError e'" and "sklearn_fit ev = Inl e"
    using that
    by (cases "dictionary_file ev")
       (simp_all add: TamilTextAnalyzer_init_def RuleBasedChecker_init_cases
          DeepLearningChecker_init_def StatisticalChecker_init_def)
  have 3: "\<exists>self. TamilTextAnalyzer_init ev = Inr self \<and>
             keys (models self) = [lit ''Rule-based'', lit ''Deep Learning'', lit ''Statistical'']"
    if d: "\<forall>e'. dictionary_file ev \<noteq> OtherError e'" and k: "\<forall>e'. sklearn_fit ev \<noteq> Inl e'"
  proof -
    obtain f where f: "sklearn_fit ev = Inr f"
      using k by (cases "sklearn_fit ev") auto
    show ?thesis
      using d f
      by (cases "dictionary_file ev")
         (simp_all add: TamilTextAnalyzer_init_def RuleBasedChecker_init_cases
            DeepLearningChecker_init_def StatisticalChecker_init_def keys_def)
  qed
  have 4: "DeepLearningChecker_init ev = Inr \<lparr>tokenizer_model = None\<rparr>"
    if "from_pretrained ev = Inl e"
    using that by (simp add: DeepLearningChecker_init_def DeepLearningChecker_initialize_model_def)
  show ?thesis
    using 1 2 3 4 by blast
qed

theorem C6_construction_witness:
  "dictionary_file unreadable = OtherError (Exception (lit ''Permission denied'')) \<and>
   TamilTextAnalyzer_init unreadable = Inl (Exception (lit ''Permission denied'')) \<and>
   dictionary_file untrained = FileNotFoundError \<and>
   sklearn_fit untrained = Inl (Exception (lit ''fit failed'')) \<and>
   TamilTextAnalyzer_init untrained = Inl (Exception (lit ''fit failed'')) \<and>
   dictionary_file offline = FileNotFoundError \<and>
   sklearn_fit offline = Inr one_class \<and>
   from_pretrained offline = Inl (Exception (lit ''no network'')) \<and>
   DeepLearningChecker_init offline = Inr \<lparr>tokenizer_model = None\<rparr> \<and>
   (\<exists>self. TamilTextAnalyzer_init offline = Inr self \<and>
      keys (models self) = [lit ''Rule-based'', lit ''Deep Learning'', lit ''Statistical''])"
proof -
  have a: "dictionary_file unreadable = OtherError (Exception (lit ''Permission denied''))"
    by (simp add: unreadable_def)
  have b: "dictionary_file untrained = FileNotFoundError"
    "sklearn_fit untrained = Inl (Exception (lit ''fit failed''))"
    by (simp_all add: untrained_def offline_def)
  have c: "dictionary_file offline = FileNotFoundError" "sklearn_fit offline = Inr one_class"
    "from_pretrained offline = Inl (Exception (lit ''no network''))"
    by (simp_all add: offline_def)
  have b': "\<forall>e'. dictionary_file untrained \<noteq> OtherError e'"
    by (simp add: b)
  have c': "\<forall>e'. dictionary_file offline \<noteq> OtherError e'" "\<forall>e'. sklearn_fit offline \<noteq> Inl e'"
    by (simp_all add: c)
  show ?thesis
    using a b c
      C6_construction [of unreadable "Exception (lit ''Permission denied'')"]
      C6_construction [of untrained "Exception (lit ''fit failed'')"] b'
      C6_construction [of offline "Exception (lit ''no network'')"] c'
    by blast
qed

text \<open>
  C6 as stated fails on a machine whose dictionary file cannot be read: the rule-based
  constructor raises, and so does the construction of the analyzer.
\<close>

theorem C6_counterexample:
  "RuleBasedChecker_init unreadable = Inl (Exception (lit ''Permission denied'')) \<and>
   TamilTextAnalyzer_init unreadable = Inl (Exception (lit ''Permission denied''))"
  by (simp add: TamilTextAnalyzer_init_def RuleBasedChecker_init_cases unreadable_def offline_def)

text \<open>
  C7. The keys of the results mapping returned by \<^verbatim>\<open>analyze_text\<close> are the registry's
  names in the registry's order, whatever the text and the two flags. Each name holds
  that checker's own records and nothing else: when the checker's pass raises nothing,
  its entry is the sequence \<^verbatim>\<open>check_text\<close> returned with the records the filter
  rejects left out, in the order and with the repetitions it had; when the pass raises,
  the entry is the one record the handler writes. (Names are distinct, as the keys of a
  dict are.)
\<close>

theorem C7_registry_order:
  assumes "distinct (keys (models self))"
  shows "\<exists>results corrections.
           analyze_text self text check_spelling check_grammar = Inr (results, corrections) \<and>
           keys results = keys (models self) \<and>
           (\<forall>model_name model errors.
              (model_name, model) \<in> set (models self) \<and> check_text model text = Inr errors \<and>
              raises model text = None \<longrightarrow>
              getitem results model_name =
                Some (filter (keep check_spelling check_grammar) errors)) \<and>
           (\<forall>model_name model e.
              (model_name, model) \<in> set (models self) \<and> raises model text = Some e \<longrightarrow>
              getitem results model_name = Some (error_entry e text))"
  unfolding analyze_text_eq [OF assms]
  by (auto simp: keys_entries getitem_entries [OF assms] entry_ok entry_raises)

theorem C7_registry_order_witness:
  "distinct (keys (models sample_analyzer)) \<and>
   (\<exists>results corrections.
      analyze_text sample_analyzer (lit ''abc'') True False = Inr (results, corrections) \<and>
      keys results = [lit ''first'', lit ''second'', lit ''third''] \<and>
      getitem results (lit ''second'') =
        Some [(lit ''spelling'', lit ''unknown word'', lit ''abc''),
              (lit ''spelling'', lit ''unknown word'', lit ''abc'')] \<and>
      getitem results (lit ''first'') =
        Some [(lit ''error'', lit ''Error processing text: model crashed'', lit ''abc'')])"
proof -
  have d: "distinct (keys (models sample_analyzer))"
    by (rule sample_distinct)
  obtain results corrections where
    r: "analyze_text sample_analyzer (lit ''abc'') True False = Inr (results, corrections)" and
    k: "keys results = keys (models sample_analyzer)" and
    ok: "\<And>model_name model errors.
           (model_name, model) \<in> set (models sample_analyzer) \<Longrightarrow>
           check_text model (lit ''abc'') = Inr errors \<Longrightarrow> raises model (lit ''abc'') = None \<Longrightarrow>
           getitem results model_name = Some (filter (keep True False) errors)" and
    bad: "\<And>model_name model e.
           (model_name, model) \<in> set (models sample_analyzer) \<Longrightarrow>
           raises model (lit ''abc'') = Some e \<Longrightarrow>
           getitem results model_name = Some (error_entry e (lit ''abc''))"
    using C7_registry_order [OF d, of "lit ''abc''" True False] by blast
  have 1: "keys results = [lit ''first'', lit ''second'', lit ''third'']"
    using k by (simp add: sample_analyzer_def keys_def)
  have 2: "getitem results (lit ''second'') =
             Some (filter (keep True False) (sample_records (lit ''abc'')))"
    by (rule ok [of _ plain_checker])
       (simp_all add: sample_analyzer_def plain_checker_def sample_raises [unfolded plain_checker_def])
  have 3: "getitem results (lit ''first'') =
             Some (error_entry (Exception (lit ''model crashed'')) (lit ''abc''))"
    by (rule bad [of _ raising_checker]) (simp_all add: sample_analyzer_def sample_raises)
  show ?thesis
    using d r 1 2 3
    by (simp add: sample_records_def keep_def lit_eq_iff error_entry_def) (simp add: lit_def)
qed

text \<open>
  C8. The tally is \<open>error_data\<close>, a function of the results mapping alone (so equal
  mappings give equal tallies). It has one row, of count 1, for every record of every
  checker whose category is not \<^verbatim>\<open>error\<close>, and none for a record of category
  \<^verbatim>\<open>error\<close>: the rows of a checker name and a category are as many as that
  checker's records of that category, and the table is as long as the records of all
  checkers that are not of category \<^verbatim>\<open>error\<close>.
\<close>

theorem C8_tally:
  "length (filter (\<lambda>row. Model row = name \<and> Error_Type row = category) (error_data results)) =
     (if category = lit ''error'' then 0
      else sum_list (map (\<lambda>(model_name, errors).
                            if model_name = name
                            then length (filter (\<lambda>error. fst error = category) errors)
                            else 0) results)) \<and>
   length (error_data results) =
     sum_list (map (\<lambda>(model_name, errors).
                      length (filter (\<lambda>error. fst error \<noteq> lit ''error'') errors)) results) \<and>
   list_all (\<lambda>row. Count row = 1) (error_data results)"
  using tally_per_model tally_total tally_counts_one by blast

text \<open>
  C9. On the sentence \<open>grammar_error_text\<close> (the example \<^verbatim>\<open>'Grammar error'\<close> of
  main.py) the rule-based checker's \<^verbatim>\<open>check_text\<close> returns a record of category
  \<^verbatim>\<open>grammar\<close>: its \<^verbatim>\<open>check_grammar\<close> finds exactly the rule of a first-person
  subject with a neuter verb suffix. This holds for every dictionary and every Unicode
  table, whenever the tokenizer of \<^verbatim>\<open>check_spelling\<close> returns on that sentence
  (whatever it returns).
\<close>

theorem C9_grammar_record:
  assumes "trivial_tokenize ev grammar_error_text = Inr words"
  shows "\<exists>errors.
           RuleBasedChecker_check_text ev self grammar_error_text = Inr errors \<and>
           list_ex (\<lambda>r. rec_type r = lit ''grammar'') errors \<and>
           (lit ''grammar'', lit ''First person with neuter verb'', grammar_error_text)
             \<in> set errors \<and>
           RuleBasedChecker_check_grammar ev grammar_error_text =
             [(lit ''grammar'', lit ''First person with neuter verb'', grammar_error_text)]"
  using assms
  by (simp add: RuleBasedChecker_check_text_def RuleBasedChecker_body_def
        RuleBasedChecker_check_spelling_def grammar_of_grammar_error_text rec_type_def)

theorem C9_grammar_record_witness:
  "trivial_tokenize offline grammar_error_text = Inr [ta_naan, ta_pallikku, ta_selkiradhu] \<and>
   (\<exists>errors.
      RuleBasedChecker_check_text offline \<lparr>tamil_words = basic_dictionary\<rparr> grammar_error_text =
        Inr errors \<and>
      list_ex (\<lambda>r. rec_type r = lit ''grammar'') errors \<and>
      (lit ''grammar'', lit ''First person with neuter verb'', grammar_error_text) \<in> set errors)"
proof -
  have t: "trivial_tokenize offline grammar_error_text =
             Inr [ta_naan, ta_pallikku, ta_selkiradhu]"
    by (simp add: offline_def grammar_error_text_def tamil_defs)
  show ?thesis
    using t C9_grammar_record [OF t, of "\<lparr>tamil_words = basic_dictionary\<rparr>"] by blast
qed

text \<open>
  C10. For an analyzer built by \<^verbatim>\<open>TamilTextAnalyzer()\<close>, the corrections mapping
  returned by \<^verbatim>\<open>analyze_text\<close> is empty for every text and both flags: the registry
  holds the three checkers \<^verbatim>\<open>'Rule-based'\<close>, \<^verbatim>\<open>'Deep Learning'\<close> and
  \<^verbatim>\<open>'Statistical'\<close>, none of them has an attribute \<^verbatim>\<open>correct_spelling\<close>, and the
  deep-learning checker's method is called \<^verbatim>\<open>get_correction_suggestions\<close>.
\<close>

theorem C10_no_corrections:
  assumes "TamilTextAnalyzer_init ev = Inr self"
  shows "(\<exists>results. analyze_text self text check_spelling check_grammar = Inr (results, [])) \<and>
         keys (models self) = [lit ''Rule-based'', lit ''Deep Learning'', lit ''Statistical''] \<and>
         list_all (\<lambda>(model_name, model). \<not> hasattr model ''correct_spelling'') (models self) \<and>
         (\<exists>deep_learning.
            getitem (models self) (lit ''Deep Learning'') = Some deep_learning \<and>
            hasattr deep_learning ''get_correction_suggestions'')"
proof -
  obtain rb dl st where m:
    "models self =
       [(lit ''Rule-based'', RuleBasedChecker_object ev rb),
        (lit ''Deep Learning'', DeepLearningChecker_object ev dl),
        (lit ''Statistical'', StatisticalChecker_object ev st)]"
    using init_models [OF assms] by blast
  have c: "corrections_of text (models self) = []"
    by (simp add: corrections_of_def m correction_no_attr no_correct_spelling)
  have g: "hasattr (DeepLearningChecker_object ev dl) ''get_correction_suggestions''"
    by (simp add: hasattr_def DeepLearningChecker_object_def)
  show ?thesis
    unfolding analyze_text_eq [OF registry_distinct [OF assms]] c
    using g by (simp add: m keys_def getitem_def lit_eq_iff no_correct_spelling)
qed

theorem C10_no_corrections_witness:
  "TamilTextAnalyzer_init offline = Inr offline_analyzer \<and>
   (\<exists>results. analyze_text offline_analyzer grammar_error_text True True = Inr (results, [])) \<and>
   keys (models offline_analyzer) = [lit ''Rule-based'', lit ''Deep Learning'', lit ''Statistical'']"
  using offline_init C10_no_corrections [OF offline_init, of grammar_error_text True True]
  by blast

end
